theory Spec2Isabelle
  imports Main "HOL-Library.Word" "HOL-Library.Multiset"
begin

unbundle bit_operations_syntax

section \<open>Shared helpers of the B+tree tiers\<close>

text \<open>
  \<open>key_binary_search\<close> exists with the same body in \<open>SSD-tier/lib/bplustree.c\<close> and in
  \<open>LO-tier/lib/bplustree_lo.c\<close>.  Keys are C \<open>int\<close>s, modelled as \<open>int\<close>; \<open>len\<close> is an \<open>int\<close>
  as well, because the SSD tree calls the search with \<open>children - 1\<close>, which is \<open>-1\<close> for a
  root without children.  The loop keeps \<open>low < high\<close>, so \<open>(high - low) / 2\<close> never rounds
  a negative quotient and C's truncating division agrees with \<open>div\<close>.
\<close>

function bsearch_loop :: "int list \<Rightarrow> int \<Rightarrow> int \<Rightarrow> int \<Rightarrow> int" where
  "bsearch_loop arr target low high =
     (if low + 1 < high
      then (let mid = low + (high - low) div 2
            in if target > arr ! nat mid
               then bsearch_loop arr target mid high
               else bsearch_loop arr target low mid)
      else high)"
  by pat_completeness auto
termination
  by (relation "measure (\<lambda>(arr, target, low, high). nat (high - low))") auto

declare bsearch_loop.simps [simp del]

definition key_binary_search :: "int list \<Rightarrow> int \<Rightarrow> int \<Rightarrow> int" where
  "key_binary_search arr len target =
     (let high = bsearch_loop arr target (- 1) len
      in if high \<ge> len \<or> arr ! nat high \<noteq> target then - high - 1 else high)"

section \<open>SSD tier: block allocator\<close>

text \<open>
  \<open>struct block_allocator\<close>: a bitmap of 32-bit words, one bit per 4 KiB block, and three
  \<open>uint32_t\<close> counters.  All arithmetic on them is 32-bit unsigned arithmetic, which is
  the arithmetic of \<open>32 word\<close>.
\<close>

type_synonym u32 = "32 word"

record block_allocator =
  bitmap :: "u32 list"
  total_blocks :: u32
  allocated_blocks :: u32
  next_search_hint :: u32

definition INVALID_BLOCK_ID :: u32 where
  "INVALID_BLOCK_ID = 0xFFFFFFFF"

definition block_allocator_init :: "u32 \<Rightarrow> block_allocator" where
  "block_allocator_init n_blocks =
     \<lparr> bitmap = replicate (unat ((n_blocks + 31) div 32)) 0,
       total_blocks = n_blocks, allocated_blocks = 0, next_search_hint = 0 \<rparr>"

text \<open>The test \<open>bitmap[word_idx] & (1U << bit_idx)\<close> of block \<open>block_id\<close>.\<close>

definition block_bit_set :: "u32 list \<Rightarrow> u32 \<Rightarrow> bool" where
  "block_bit_set bm block_id =
     (bm ! unat (block_id div 32) AND push_bit (unat (block_id mod 32)) 1 \<noteq> 0)"

text \<open>\<open>bitmap[word_idx] |= (1U << bit_idx)\<close> and \<open>bitmap[word_idx] &= ~(1U << bit_idx)\<close>.\<close>

definition block_bit_mark :: "u32 list \<Rightarrow> u32 \<Rightarrow> u32 list" where
  "block_bit_mark bm block_id =
     bm[unat (block_id div 32) :=
          bm ! unat (block_id div 32) OR push_bit (unat (block_id mod 32)) 1]"

definition block_bit_clear :: "u32 list \<Rightarrow> u32 \<Rightarrow> u32 list" where
  "block_bit_clear bm block_id =
     bm[unat (block_id div 32) :=
          bm ! unat (block_id div 32) AND NOT (push_bit (unat (block_id mod 32)) 1)]"

text \<open>
  The search loop of \<open>allocate_block\<close>: \<open>i\<close> runs from 0 while \<open>i < total_blocks\<close>;
  the candidate is \<open>(next_search_hint + i) % total_blocks\<close>, computed in 32 bits.
\<close>

function allocate_block_scan :: "block_allocator \<Rightarrow> u32 \<Rightarrow> u32 \<times> block_allocator" where
  "allocate_block_scan a i =
     (if i < total_blocks a
      then (let block_id = (next_search_hint a + i) mod total_blocks a
            in if \<not> block_bit_set (bitmap a) block_id
               then (block_id,
                     a\<lparr> bitmap := block_bit_mark (bitmap a) block_id,
                        allocated_blocks := allocated_blocks a + 1,
                        next_search_hint := (block_id + 1) mod total_blocks a \<rparr>)
               else allocate_block_scan a (i + 1))
      else (INVALID_BLOCK_ID, a))"
  by pat_completeness auto
termination
proof (relation "measure (\<lambda>(a, i). unat (total_blocks a) - unat i)")
  show "wf (measure (\<lambda>(a, i). unat (total_blocks a) - unat i))"
    by simp
next
  fix a :: block_allocator and i :: u32 and x :: u32
  assume lt: "i < total_blocks a"
  then have "unat i < unat (total_blocks a)"
    by (simp add: word_less_nat_alt)
  moreover have "unat (i + 1) = unat i + 1"
    using lt
    by (metis (no_types, lifting) add.commute add_0 inc_i inc_le
        unat_plus_simple unsigned_0 unsigned_1 word_gt_0)
  ultimately show "((a, i + 1), (a, i)) \<in> measure (\<lambda>(a, i). unat (total_blocks a) - unat i)"
    by simp
qed

declare allocate_block_scan.simps [simp del]

definition allocate_block :: "block_allocator \<Rightarrow> u32 \<times> block_allocator" where
  "allocate_block a =
     (if allocated_blocks a \<ge> total_blocks a then (INVALID_BLOCK_ID, a)
      else allocate_block_scan a 0)"

definition free_block :: "block_allocator \<Rightarrow> u32 \<Rightarrow> block_allocator" where
  "free_block a block_id =
     (if block_id \<ge> total_blocks a then a
      else if block_bit_set (bitmap a) block_id
      then a\<lparr> bitmap := block_bit_clear (bitmap a) block_id,
              allocated_blocks := allocated_blocks a - 1 \<rparr>
      else a)"

text \<open>
  \<open>allocate_multiple_blocks\<close>.  The out-array \<open>block_ids\<close> is returned as the list of the
  slots written so far.  On a failed \<open>allocate_block\<close> the blocks \<open>block_ids[0..i)\<close> are
  freed in that order and the call returns \<open>-1\<close>.
\<close>

fun allocate_multiple_loop ::
  "block_allocator \<Rightarrow> nat \<Rightarrow> u32 list \<Rightarrow> int \<times> block_allocator \<times> u32 list" where
  "allocate_multiple_loop a 0 ids = (0, a, ids)"
| "allocate_multiple_loop a (Suc n) ids =
     (case allocate_block a of
        (b, a') \<Rightarrow>
          if b = INVALID_BLOCK_ID
          then (- 1, foldl free_block a' ids, ids @ [b])
          else allocate_multiple_loop a' n (ids @ [b]))"

definition allocate_multiple_blocks ::
  "block_allocator \<Rightarrow> u32 \<Rightarrow> int \<times> block_allocator \<times> u32 list" where
  "allocate_multiple_blocks a cnt =
     (if cnt = 0 then (- 1, a, [])
      else if allocated_blocks a + cnt > total_blocks a then (- 1, a, [])
      else allocate_multiple_loop a (unat cnt) [])"

section \<open>SSD tier: sub-pages\<close>

text \<open>
  A sub-page is a 4 KiB block: a 16-byte header (\<open>entries\<close>, \<open>next_sub_page\<close>, padding)
  followed by an array of \<open>ENTRIES_PER_SUB_PAGE\<close> keys and an array of as many \<open>long\<close>
  values.  With \<open>sizeof(key_t) = 4\<close> and \<open>sizeof(long) = 8\<close> (LP64) the macro is
  \<open>(4096 - 16) / 12 = 340\<close>.  Every operation of the source reads only the slots below
  \<open>header.entries\<close>, so a sub-page is modelled by these slots, in order, as a list of
  (key, value) pairs; \<open>header.entries\<close> is the length of the list.  \<open>long\<close> values are
  modelled as \<open>int\<close>.
\<close>

type_synonym sub_page = "(int \<times> int) list"

definition ENTRIES_PER_SUB_PAGE :: int where
  "ENTRIES_PER_SUB_PAGE = 340"

definition SUB_PAGES_PER_SUPER_LEAF :: nat where
  "SUB_PAGES_PER_SUPER_LEAF = 16"

definition hash_key_to_sub_page :: "int \<Rightarrow> nat \<Rightarrow> nat" where
  "hash_key_to_sub_page key num_sub_pages =
     (if num_sub_pages = 0 then 0
      else (let h0 = (word_of_int key :: u32) * 2654435761;
                h1 = h0 XOR drop_bit 16 h0;
                h2 = h1 XOR drop_bit 8 h1
            in unat (h2 mod of_nat num_sub_pages)))"

definition sub_page_create :: sub_page where
  "sub_page_create = []"

definition sub_page_is_full :: "sub_page \<Rightarrow> bool" where
  "sub_page_is_full sp = (int (length sp) \<ge> ENTRIES_PER_SUB_PAGE)"

definition sub_page_insert :: "sub_page \<Rightarrow> int \<Rightarrow> int \<Rightarrow> int \<times> sub_page" where
  "sub_page_insert sp key data =
     (if sub_page_is_full sp then (- 1, sp)
      else (let pos = key_binary_search (map fst sp) (int (length sp)) key
            in if pos \<ge> 0 then (0, sp[nat pos := (fst (sp ! nat pos), data)])
               else (let ins = nat (- pos - 1)
                     in (0, take ins sp @ [(key, data)] @ drop ins sp))))"

definition sub_page_search :: "sub_page \<Rightarrow> int \<Rightarrow> int" where
  "sub_page_search sp key =
     (let pos = key_binary_search (map fst sp) (int (length sp)) key
      in if pos \<ge> 0 then snd (sp ! nat pos) else - 1)"

definition sub_page_delete :: "sub_page \<Rightarrow> int \<Rightarrow> int \<times> sub_page" where
  "sub_page_delete sp key =
     (let pos = key_binary_search (map fst sp) (int (length sp)) key
      in if pos < 0 then (- 1, sp)
         else (0, take (nat pos) sp @ drop (nat pos + 1) sp))"

section \<open>SSD tier: disk manager and super-leaves\<close>

text \<open>
  The disk file is pre-sized to \<open>total_4kb_blocks\<close> blocks; block \<open>b\<close> holds one sub-page
  image.  Positioned reads and writes of a whole block inside the file are taken to
  succeed; a block id outside the file is refused by the explicit checks of
  \<open>disk_write_sub_page\<close> and \<open>disk_read_sub_page\<close>.  A block never written reads as zeros,
  that is, as a sub-page with \<open>entries = 0\<close>.  Failures of \<open>calloc\<close> and \<open>malloc\<close> are
  not modelled.
\<close>

record disk_manager =
  allocator :: block_allocator
  total_4kb_blocks :: u32
  disk_blocks :: "u32 \<Rightarrow> sub_page"

definition disk_write_sub_page :: "disk_manager \<Rightarrow> u32 \<Rightarrow> sub_page \<Rightarrow> int \<times> disk_manager" where
  "disk_write_sub_page dm block_id sp =
     (if block_id \<ge> total_4kb_blocks dm then (- 1, dm)
      else (0, dm\<lparr> disk_blocks := (disk_blocks dm)(block_id := sp) \<rparr>))"

definition disk_read_sub_page :: "disk_manager \<Rightarrow> u32 \<Rightarrow> sub_page option" where
  "disk_read_sub_page dm block_id =
     (if block_id \<ge> total_4kb_blocks dm then None
      else Some (disk_blocks dm block_id))"

text \<open>
  \<open>struct bplus_super_leaf\<close>.  The three arrays have \<open>SUB_PAGES_PER_SUPER_LEAF\<close> slots;
  a \<open>NULL\<close> entry of \<open>cached_sub_pages\<close> is \<open>None\<close>.
\<close>

record bplus_super_leaf =
  total_entries :: int
  active_sub_pages :: int
  next_super_leaf :: int
  prev_super_leaf :: int
  sub_page_blocks :: "u32 list"
  cached_sub_pages :: "sub_page option list"
  dirty_flags :: "int list"

definition super_leaf_create :: bplus_super_leaf where
  "super_leaf_create =
     \<lparr> total_entries = 0, active_sub_pages = 0,
       next_super_leaf = - 1, prev_super_leaf = - 1,
       sub_page_blocks = replicate SUB_PAGES_PER_SUPER_LEAF INVALID_BLOCK_ID,
       cached_sub_pages = replicate SUB_PAGES_PER_SUPER_LEAF None,
       dirty_flags = replicate SUB_PAGES_PER_SUPER_LEAF 0 \<rparr>"

text \<open>
  \<open>super_leaf_load_sub_page_by_hash\<close> returns a pointer into \<open>cached_sub_pages\<close> or
  \<open>NULL\<close>; the model returns whether the pointer is non-null, the page being
  \<open>cached_sub_pages[sub_page_idx]\<close> of the returned super-leaf.
\<close>

definition super_leaf_load_sub_page_by_hash ::
  "disk_manager \<Rightarrow> bplus_super_leaf \<Rightarrow> int \<Rightarrow> bool \<times> disk_manager \<times> bplus_super_leaf" where
  "super_leaf_load_sub_page_by_hash dm sl key =
     (let idx = hash_key_to_sub_page key SUB_PAGES_PER_SUPER_LEAF
      in if cached_sub_pages sl ! idx \<noteq> None then (True, dm, sl)
         else if sub_page_blocks sl ! idx = INVALID_BLOCK_ID
         then (case allocate_block (allocator dm) of
                 (block_id, al) \<Rightarrow>
                   if block_id = INVALID_BLOCK_ID then (False, dm\<lparr> allocator := al \<rparr>, sl)
                   else (True, dm\<lparr> allocator := al \<rparr>,
                         sl\<lparr> sub_page_blocks := (sub_page_blocks sl)[idx := block_id],
                             cached_sub_pages := (cached_sub_pages sl)[idx := Some sub_page_create],
                             dirty_flags := (dirty_flags sl)[idx := 1],
                             active_sub_pages :=
                               (if int idx \<ge> active_sub_pages sl then int idx + 1
                                else active_sub_pages sl) \<rparr>))
         else (case disk_read_sub_page dm (sub_page_blocks sl ! idx) of
                 None \<Rightarrow> (False, dm, sl)
               | Some sp \<Rightarrow>
                   (True, dm, sl\<lparr> cached_sub_pages := (cached_sub_pages sl)[idx := Some sp] \<rparr>)))"

text \<open>
  \<open>super_leaf_is_full\<close> compares \<open>total_entries\<close> with the \<open>double\<close>
  \<open>total_capacity * 0.9\<close>, where \<open>total_capacity = 16 * 340 = 5440\<close>.  The product is the
  double \<open>4896.0\<close> exactly, so the comparison is the integer comparison below.
\<close>

definition super_leaf_is_full :: "bplus_super_leaf \<Rightarrow> bool" where
  "super_leaf_is_full sl =
     (total_entries sl * 10 \<ge> int SUB_PAGES_PER_SUPER_LEAF * ENTRIES_PER_SUB_PAGE * 9)"

definition super_leaf_insert_hashed ::
  "disk_manager \<Rightarrow> bplus_super_leaf \<Rightarrow> int \<Rightarrow> int \<Rightarrow> int \<times> disk_manager \<times> bplus_super_leaf" where
  "super_leaf_insert_hashed dm sl key data =
     (let idx = hash_key_to_sub_page key SUB_PAGES_PER_SUPER_LEAF
      in case super_leaf_load_sub_page_by_hash dm sl key of
           (loaded, dm1, sl1) \<Rightarrow>
             if \<not> loaded then (- 1, dm1, sl1)
             else (let sp = the (cached_sub_pages sl1 ! idx)
                   in if sub_page_is_full sp
                      then (if super_leaf_is_full sl1 then (- 2, dm1, sl1) else (- 1, dm1, sl1))
                      else (case sub_page_insert sp key data of
                              (rc, sp') \<Rightarrow>
                                if rc \<noteq> 0 then (- 1, dm1, sl1)
                                else (0, dm1,
                                      sl1\<lparr> cached_sub_pages := (cached_sub_pages sl1)[idx := Some sp'],
                                           dirty_flags := (dirty_flags sl1)[idx := 1],
                                           total_entries := total_entries sl1 + 1 \<rparr>))))"

definition super_leaf_search_hashed ::
  "disk_manager \<Rightarrow> bplus_super_leaf \<Rightarrow> int \<Rightarrow> int \<times> disk_manager \<times> bplus_super_leaf" where
  "super_leaf_search_hashed dm sl key =
     (let idx = hash_key_to_sub_page key SUB_PAGES_PER_SUPER_LEAF
      in if sub_page_blocks sl ! idx = INVALID_BLOCK_ID then (- 1, dm, sl)
         else (case super_leaf_load_sub_page_by_hash dm sl key of
                 (loaded, dm1, sl1) \<Rightarrow>
                   if \<not> loaded then (- 1, dm1, sl1)
                   else (sub_page_search (the (cached_sub_pages sl1 ! idx)) key, dm1, sl1)))"

definition super_leaf_delete_hashed ::
  "disk_manager \<Rightarrow> bplus_super_leaf \<Rightarrow> int \<Rightarrow> int \<times> disk_manager \<times> bplus_super_leaf" where
  "super_leaf_delete_hashed dm sl key =
     (let idx = hash_key_to_sub_page key SUB_PAGES_PER_SUPER_LEAF
      in if sub_page_blocks sl ! idx = INVALID_BLOCK_ID then (- 1, dm, sl)
         else (case super_leaf_load_sub_page_by_hash dm sl key of
                 (loaded, dm1, sl1) \<Rightarrow>
                   if \<not> loaded then (- 1, dm1, sl1)
                   else (case sub_page_delete (the (cached_sub_pages sl1 ! idx)) key of
                           (rc, sp') \<Rightarrow>
                             if rc = 0
                             then (0, dm1,
                                   sl1\<lparr> cached_sub_pages := (cached_sub_pages sl1)[idx := Some sp'],
                                        dirty_flags := (dirty_flags sl1)[idx := 1],
                                        total_entries := total_entries sl1 - 1 \<rparr>)
                             else (- 1, dm1, sl1))))"

text \<open>One iteration of the loop of \<open>super_leaf_flush_dirty\<close>, on slot \<open>i\<close>.\<close>

definition flush_dirty_step ::
  "int \<times> disk_manager \<times> bplus_super_leaf \<Rightarrow> nat \<Rightarrow> int \<times> disk_manager \<times> bplus_super_leaf" where
  "flush_dirty_step st i =
     (case st of
        (flushed, dm, sl) \<Rightarrow>
          if dirty_flags sl ! i \<noteq> 0 \<and> cached_sub_pages sl ! i \<noteq> None
          then (case disk_write_sub_page dm (sub_page_blocks sl ! i) (the (cached_sub_pages sl ! i)) of
                  (rc, dm') \<Rightarrow>
                    if rc = 0 then (flushed + 1, dm', sl\<lparr> dirty_flags := (dirty_flags sl)[i := 0] \<rparr>)
                    else (flushed, dm', sl))
          else (flushed, dm, sl))"

definition super_leaf_flush_dirty ::
  "disk_manager \<Rightarrow> bplus_super_leaf \<Rightarrow> int \<times> disk_manager \<times> bplus_super_leaf" where
  "super_leaf_flush_dirty dm sl =
     foldl flush_dirty_step (0, dm, sl) [0..<SUB_PAGES_PER_SUPER_LEAF]"

section \<open>SSD tier: splitting a super-leaf\<close>

type_synonym KeyValuePair = "int \<times> int"

text \<open>
  The insertion sort of \<open>consolidate_and_sort\<close>.  \<open>sort_shift a n temp\<close> is the inner
  \<open>while\<close> loop with \<open>n = j + 1\<close>: while \<open>j \<ge> 0\<close> and \<open>a[j].key > temp.key\<close> it copies
  \<open>a[j]\<close> to \<open>a[j + 1]\<close> and decrements \<open>j\<close>; then it stores \<open>temp\<close> in \<open>a[j + 1]\<close>.
\<close>

fun sort_shift :: "KeyValuePair list \<Rightarrow> nat \<Rightarrow> KeyValuePair \<Rightarrow> KeyValuePair list" where
  "sort_shift a 0 temp = a[0 := temp]"
| "sort_shift a (Suc j) temp =
     (if fst (a ! j) > fst temp then sort_shift (a[Suc j := a ! j]) j temp
      else a[Suc j := temp])"

definition insertion_sort_pairs :: "KeyValuePair list \<Rightarrow> KeyValuePair list" where
  "insertion_sort_pairs a = foldl (\<lambda>b i. sort_shift b i (b ! i)) a [1..<length a]"

definition consolidate_and_sort :: "sub_page option list \<Rightarrow> KeyValuePair list" where
  "consolidate_and_sort sub_pages =
     insertion_sort_pairs
       (concat (map (\<lambda>sp. case sp of None \<Rightarrow> [] | Some p \<Rightarrow> p) sub_pages))"

text \<open>
  The body of the redistribution loop of \<open>redistribute_pairs_hashed\<close> for one pair and
  its target leaf: create the hashed sub-page if it is missing, insert, and count the
  pair when \<open>sub_page_insert\<close> returns 0.
\<close>

definition redistribute_place :: "bplus_super_leaf \<Rightarrow> KeyValuePair \<Rightarrow> bplus_super_leaf" where
  "redistribute_place target kv =
     (let idx = hash_key_to_sub_page (fst kv) SUB_PAGES_PER_SUPER_LEAF;
          t1 = (if cached_sub_pages target ! idx = None
                then target\<lparr> cached_sub_pages := (cached_sub_pages target)[idx := Some sub_page_create],
                             dirty_flags := (dirty_flags target)[idx := 1] \<rparr>
                else target)
      in case sub_page_insert (the (cached_sub_pages t1 ! idx)) (fst kv) (snd kv) of
           (rc, sp') \<Rightarrow>
             if rc = 0
             then t1\<lparr> cached_sub_pages := (cached_sub_pages t1)[idx := Some sp'],
                      total_entries := total_entries t1 + 1,
                      dirty_flags := (dirty_flags t1)[idx := 1] \<rparr>
             else t1)"

definition redistribute_step ::
  "int \<Rightarrow> bplus_super_leaf \<times> bplus_super_leaf \<Rightarrow> KeyValuePair
     \<Rightarrow> bplus_super_leaf \<times> bplus_super_leaf" where
  "redistribute_step median_key lr kv =
     (if fst kv < median_key then (redistribute_place (fst lr) kv, snd lr)
      else (fst lr, redistribute_place (snd lr) kv))"

definition count_active_sub_pages :: "sub_page option list \<Rightarrow> int" where
  "count_active_sub_pages cached =
     foldl (\<lambda>act i. if cached ! i \<noteq> None then int i + 1 else act) 0
       [0..<SUB_PAGES_PER_SUPER_LEAF]"

definition redistribute_pairs_hashed ::
  "KeyValuePair list \<Rightarrow> bplus_super_leaf \<Rightarrow> bplus_super_leaf
     \<Rightarrow> int \<times> bplus_super_leaf \<times> bplus_super_leaf \<times> int" where
  "redistribute_pairs_hashed pairs left_leaf right_leaf =
     (if pairs = [] then (- 1, left_leaf, right_leaf, 0)
      else (let median_key = fst (pairs ! (length pairs div 2));
                l0 = left_leaf\<lparr> cached_sub_pages := replicate SUB_PAGES_PER_SUPER_LEAF None,
                                total_entries := 0 \<rparr>;
                r0 = right_leaf\<lparr> cached_sub_pages := replicate SUB_PAGES_PER_SUPER_LEAF None,
                                 total_entries := 0 \<rparr>;
                lr = foldl (redistribute_step median_key) (l0, r0) pairs;
                l1 = (fst lr)\<lparr> active_sub_pages := count_active_sub_pages (cached_sub_pages (fst lr)) \<rparr>;
                r1 = (snd lr)\<lparr> active_sub_pages := count_active_sub_pages (cached_sub_pages (snd lr)) \<rparr>
            in (0, l1, r1, median_key)))"

text \<open>The read phase of \<open>split_super_leaf\<close>: the array \<open>read_buffers\<close>.\<close>

definition split_read_phase :: "disk_manager \<Rightarrow> bplus_super_leaf \<Rightarrow> sub_page option list" where
  "split_read_phase dm leaf =
     map (\<lambda>i. if sub_page_blocks leaf ! i \<noteq> INVALID_BLOCK_ID
               then (case cached_sub_pages leaf ! i of
                       Some sp \<Rightarrow> Some sp
                     | None \<Rightarrow> disk_read_sub_page dm (sub_page_blocks leaf ! i))
               else None)
       [0..<SUB_PAGES_PER_SUPER_LEAF]"

text \<open>
  The loop that allocates a fresh block for every cached sub-page of the right sibling;
  it stops at the first failed allocation.
\<close>

fun split_allocate_right ::
  "block_allocator \<Rightarrow> bplus_super_leaf \<Rightarrow> nat list \<Rightarrow> bool \<times> block_allocator \<times> bplus_super_leaf" where
  "split_allocate_right al r [] = (True, al, r)"
| "split_allocate_right al r (i # rest) =
     (if cached_sub_pages r ! i \<noteq> None
      then (case allocate_block al of
              (new_block, al') \<Rightarrow>
                if new_block = INVALID_BLOCK_ID then (False, al', r)
                else split_allocate_right al'
                       (r\<lparr> sub_page_blocks := (sub_page_blocks r)[i := new_block] \<rparr>) rest)
      else split_allocate_right al r rest)"

text \<open>
  \<open>split_super_leaf\<close> returns a \<open>PromotedKey\<close>: the promoted key and the right sibling,
  \<open>{0, NULL}\<close> on failure.  The model also returns the disk manager and the split leaf,
  both of which the function changes in place.
\<close>

definition split_super_leaf ::
  "disk_manager \<Rightarrow> bplus_super_leaf
     \<Rightarrow> (int \<times> bplus_super_leaf option) \<times> disk_manager \<times> bplus_super_leaf" where
  "split_super_leaf dm leaf_to_split =
     (let read_buffers = split_read_phase dm leaf_to_split;
          valid_sub_pages = length (filter (\<lambda>b. b \<noteq> None) read_buffers)
      in if valid_sub_pages = 0 then ((0, None), dm, leaf_to_split)
         else (let all_pairs = consolidate_and_sort read_buffers
               in if all_pairs = [] then ((0, None), dm, leaf_to_split)
                  else (case redistribute_pairs_hashed all_pairs leaf_to_split super_leaf_create of
                          (rc, l1, r1, median_key) \<Rightarrow>
                            if rc \<noteq> 0 then ((0, None), dm, l1)
                            else (case split_allocate_right (allocator dm) r1
                                         [0..<SUB_PAGES_PER_SUPER_LEAF] of
                                    (ok, al, r2) \<Rightarrow>
                                      if \<not> ok then ((0, None), dm\<lparr> allocator := al \<rparr>, l1)
                                      else (case super_leaf_flush_dirty (dm\<lparr> allocator := al \<rparr>) l1 of
                                              (left_writes, dm2, l2) \<Rightarrow>
                                                (case super_leaf_flush_dirty dm2 r2 of
                                                   (right_writes, dm3, r3) \<Rightarrow>
                                                     ((median_key,
                                                       Some (r3\<lparr> next_super_leaf := next_super_leaf l2,
                                                                  prev_super_leaf := - 1 \<rparr>)),
                                                      dm3,
                                                      l2\<lparr> next_super_leaf := - 1 \<rparr>)))))))"

section \<open>SSD tier: the tree\<close>

text \<open>
  The only internal node the source ever creates is the root made by
  \<open>bplus_tree_insert\<close>, with \<open>is_leaf_parent = 1\<close>: its children are super-leaves.
  \<open>children\<close> is the length of \<open>nl_sub_ptr\<close>, and \<open>nl_key\<close> holds the keys in use.
\<close>

record bplus_non_leaf_ssd =
  nl_key :: "int list"
  nl_sub_ptr :: "bplus_super_leaf list"

record bplus_tree_ssd =
  ssd_order :: int
  ssd_entries :: int
  ssd_level :: int
  ssd_root :: "bplus_non_leaf_ssd option"
  disk_mgr :: disk_manager

definition bplus_tree_search :: "bplus_tree_ssd \<Rightarrow> int \<Rightarrow> int \<times> bplus_tree_ssd" where
  "bplus_tree_search tree key =
     (case ssd_root tree of
        None \<Rightarrow> (- 1, tree)
      | Some nln \<Rightarrow>
          (let children = int (length (nl_sub_ptr nln));
               i = key_binary_search (nl_key nln) (children - 1) key;
               super_leaf_idx = (if i \<ge> 0 then i + 1 else - i - 1)
           in if super_leaf_idx < children
              then (case super_leaf_search_hashed (disk_mgr tree)
                           (nl_sub_ptr nln ! nat super_leaf_idx) key of
                      (res, dm', sl') \<Rightarrow>
                        (res,
                         tree\<lparr> ssd_root :=
                                  Some (nln\<lparr> nl_sub_ptr := (nl_sub_ptr nln)[nat super_leaf_idx := sl'] \<rparr>),
                               disk_mgr := dm' \<rparr>))
              else (- 1, tree)))"

text \<open>
  \<open>update_parent_with_promoted_key\<close> is only called after a split of \<open>sub_ptr[0]\<close>, so the
  root has at least one child.
\<close>

definition update_parent_with_promoted_key ::
  "bplus_tree_ssd \<Rightarrow> int \<Rightarrow> bplus_super_leaf \<Rightarrow> int \<times> bplus_tree_ssd" where
  "update_parent_with_promoted_key tree pkey right_sibling =
     (case ssd_root tree of
        None \<Rightarrow> (- 1, tree)
      | Some root \<Rightarrow>
          (let insert_pos = length (takeWhile (\<lambda>k. pkey > k) (nl_key root))
           in if length (nl_sub_ptr root) \<ge> 64 then (- 1, tree)
              else (0,
                    tree\<lparr> ssd_root :=
                             Some (root\<lparr> nl_key := take insert_pos (nl_key root) @ [pkey]
                                                    @ drop insert_pos (nl_key root),
                                         nl_sub_ptr := take (insert_pos + 1) (nl_sub_ptr root)
                                                    @ [right_sibling]
                                                    @ drop (insert_pos + 1) (nl_sub_ptr root) \<rparr>) \<rparr>)))"

text \<open>
  \<open>bplus_tree_insert\<close> always inserts into \<open>sub_ptr[0]\<close> and calls itself again after a
  split, so it is a partial function: \<open>None\<close> stands for a call that does not return.
\<close>

partial_function (option) bplus_tree_insert ::
  "bplus_tree_ssd \<Rightarrow> int \<Rightarrow> int \<Rightarrow> (int \<times> bplus_tree_ssd) option" where
  "bplus_tree_insert tree key data =
     (case ssd_root tree of
        None \<Rightarrow>
          (case super_leaf_insert_hashed (disk_mgr tree) super_leaf_create key data of
             (rc, dm', sl') \<Rightarrow>
               if rc \<noteq> 0
               then Some (- 1, tree\<lparr> ssd_root := Some \<lparr> nl_key = [], nl_sub_ptr = [] \<rparr>,
                                     ssd_level := 1, disk_mgr := dm' \<rparr>)
               else Some (0, tree\<lparr> ssd_root := Some \<lparr> nl_key = [], nl_sub_ptr = [sl'] \<rparr>,
                                   ssd_level := 1, disk_mgr := dm' \<rparr>))
      | Some root \<Rightarrow>
          (if nl_sub_ptr root = [] then Some (- 1, tree)
           else (case super_leaf_insert_hashed (disk_mgr tree) (nl_sub_ptr root ! 0) key data of
                   (rc, dm1, sl1) \<Rightarrow>
                     if rc = - 2
                     then (case split_super_leaf dm1 sl1 of
                             (promoted, dm2, sl2) \<Rightarrow>
                               (let t2 = tree\<lparr> ssd_root :=
                                                  Some (root\<lparr> nl_sub_ptr := (nl_sub_ptr root)[0 := sl2] \<rparr>),
                                               disk_mgr := dm2 \<rparr>
                                in case snd promoted of
                                     None \<Rightarrow> Some (- 1, t2)
                                   | Some right_sibling \<Rightarrow>
                                       (case update_parent_with_promoted_key t2 (fst promoted) right_sibling of
                                          (urc, t3) \<Rightarrow>
                                            if urc \<noteq> 0 then Some (- 1, t3)
                                            else bplus_tree_insert t3 key data)))
                     else Some (rc, tree\<lparr> ssd_root :=
                                            Some (root\<lparr> nl_sub_ptr := (nl_sub_ptr root)[0 := sl1] \<rparr>),
                                          disk_mgr := dm1 \<rparr>))))"

definition bplus_tree_ssd_get :: "bplus_tree_ssd \<Rightarrow> int \<Rightarrow> int \<times> bplus_tree_ssd" where
  "bplus_tree_ssd_get tree key = bplus_tree_search tree key"

definition bplus_tree_ssd_put ::
  "bplus_tree_ssd \<Rightarrow> int \<Rightarrow> int \<Rightarrow> (int \<times> bplus_tree_ssd) option" where
  "bplus_tree_ssd_put tree key data =
     (if data = 0 then Some (- 1, tree) else bplus_tree_insert tree key data)"

text \<open>
  \<open>bplus_tree_ssd_init\<close> with the disk manager of \<open>disk_manager_init\<close>: a file of
  \<open>2^30 / 4096 = 262144\<close> blocks.  The file may exist before; \<open>file0\<close> is its content.
\<close>

definition disk_manager_init :: "(u32 \<Rightarrow> sub_page) \<Rightarrow> disk_manager" where
  "disk_manager_init file0 =
     \<lparr> allocator = block_allocator_init 262144, total_4kb_blocks = 262144,
       disk_blocks = file0 \<rparr>"

definition bplus_tree_ssd_init ::
  "int \<Rightarrow> int \<Rightarrow> (u32 \<Rightarrow> sub_page) \<Rightarrow> bplus_tree_ssd option" where
  "bplus_tree_ssd_init ord n_entries file0 =
     (if ord < 3 \<or> ord > 64 then None
      else if n_entries \<le> 0 \<or> n_entries > 64 then None
      else Some \<lparr> ssd_order = ord, ssd_entries = n_entries, ssd_level = 0,
                  ssd_root = None, disk_mgr = disk_manager_init file0 \<rparr>)"

section \<open>Large-object tier: the index\<close>

text \<open>
  \<open>struct object_pointer\<close>: \<open>uint64_t lba\<close>, \<open>uint32_t size\<close>, \<open>uint32_t checksum\<close>.
\<close>

record object_pointer =
  op_lba :: "64 word"
  op_size :: u32
  op_checksum :: u32

definition INVALID_OBJECT_POINTER :: object_pointer where
  "INVALID_OBJECT_POINTER = \<lparr> op_lba = 0, op_size = 0, op_checksum = 0 \<rparr>"

definition object_pointer_is_valid :: "object_pointer \<Rightarrow> bool" where
  "object_pointer_is_valid ptr = (op_lba ptr \<noteq> 0 \<or> op_size ptr \<noteq> 0)"

text \<open>
  Nodes of the large-object B+tree are represented by value: a leaf is the list of its
  \<open>entries\<close> (key, object pointer) pairs, a non-leaf node is the list of its
  \<open>children - 1\<close> keys and the list of the subtrees its \<open>sub_ptr\<close> slots point to.  The
  \<open>parent\<close> link of a node is the node the recursion came from.  The C structure can
  make two slots point to one node (see \<open>lo_non_leaf_insert\<close>); the value model then
  holds two copies, which agree with the C structure for every lookup until one of them
  is modified again.  The counters \<open>entries\<close>, \<open>level\<close>, \<open>next_lba\<close>, \<open>total_objects\<close>,
  \<open>total_size\<close> and the per-level lists are written but never read by the operations
  modelled here and are left out.
\<close>

datatype lo_node =
    LoLeaf "(int \<times> object_pointer) list"
  | LoNonLeaf "int list" "lo_node list"

record bplus_tree_lo =
  lo_order :: int
  lo_root :: "lo_node option"

definition BPLUS_MAX_ENTRIES :: nat where
  "BPLUS_MAX_ENTRIES = 64"

definition bplus_tree_lo_init :: "int \<Rightarrow> bplus_tree_lo option" where
  "bplus_tree_lo_init ord =
     (if ord < 3 \<or> ord > 64 then None
      else Some \<lparr> lo_order = ord, lo_root = Some (LoLeaf []) \<rparr>)"

text \<open>The child slot the descent takes in a non-leaf node.\<close>

definition lo_child_slot :: "int list \<Rightarrow> lo_node list \<Rightarrow> int \<Rightarrow> nat" where
  "lo_child_slot ks cs key =
     (let i = key_binary_search ks (int (length cs) - 1) key
      in if i \<ge> 0 then nat (i + 1) else nat (- i - 1))"

function lo_node_get :: "lo_node \<Rightarrow> int \<Rightarrow> object_pointer" where
  "lo_node_get (LoLeaf es) key =
     (let i = key_binary_search (map fst es) (int (length es)) key
      in if i \<ge> 0 then snd (es ! nat i) else INVALID_OBJECT_POINTER)"
| "lo_node_get (LoNonLeaf ks cs) key =
     (if lo_child_slot ks cs key < length cs
      then lo_node_get (cs ! lo_child_slot ks cs key) key
      else INVALID_OBJECT_POINTER)"
  by pat_completeness auto
termination
proof (relation "measure (\<lambda>(n, k). size n)")
  show "wf (measure (\<lambda>(n, k). size n))"
    by simp
next
  fix ks :: "int list" and cs :: "lo_node list" and key :: int
  assume "lo_child_slot ks cs key < length cs"
  then have "cs ! lo_child_slot ks cs key \<in> set cs"
    by simp
  then have "size (cs ! lo_child_slot ks cs key) \<le> size_list size cs"
    by (simp add: size_list_estimation')
  then show "((cs ! lo_child_slot ks cs key, key), (LoNonLeaf ks cs, key)) \<in> measure (\<lambda>(n, k). size n)"
    by simp
qed

definition bplus_tree_lo_get :: "bplus_tree_lo \<Rightarrow> int \<Rightarrow> object_pointer" where
  "bplus_tree_lo_get tree key =
     (case lo_root tree of
        None \<Rightarrow> INVALID_OBJECT_POINTER
      | Some root \<Rightarrow> lo_node_get root key)"

text \<open>
  \<open>leaf_locate\<close> followed by \<open>leaf_remove\<close>: the return code and the node with the
  located leaf changed in place.
\<close>

function lo_node_delete :: "lo_node \<Rightarrow> int \<Rightarrow> int \<times> lo_node" where
  "lo_node_delete (LoLeaf es) key =
     (let pos = key_binary_search (map fst es) (int (length es)) key
      in if pos < 0 then (- 1, LoLeaf es)
         else (0, LoLeaf (take (nat pos) es @ drop (nat pos + 1) es)))"
| "lo_node_delete (LoNonLeaf ks cs) key =
     (if lo_child_slot ks cs key < length cs
      then (case lo_node_delete (cs ! lo_child_slot ks cs key) key of
              (rc, c') \<Rightarrow> (rc, LoNonLeaf ks (cs[lo_child_slot ks cs key := c'])))
      else (- 1, LoNonLeaf ks cs))"
  by pat_completeness auto
termination
proof (relation "measure (\<lambda>(n, k). size n)")
  show "wf (measure (\<lambda>(n, k). size n))"
    by simp
next
  fix ks :: "int list" and cs :: "lo_node list" and key :: int
  assume "lo_child_slot ks cs key < length cs"
  then have "cs ! lo_child_slot ks cs key \<in> set cs"
    by simp
  then have "size (cs ! lo_child_slot ks cs key) \<le> size_list size cs"
    by (simp add: size_list_estimation')
  then show "((cs ! lo_child_slot ks cs key, key), (LoNonLeaf ks cs, key)) \<in> measure (\<lambda>(n, k). size n)"
    by simp
qed

definition bplus_tree_lo_delete :: "bplus_tree_lo \<Rightarrow> int \<Rightarrow> int \<times> bplus_tree_lo" where
  "bplus_tree_lo_delete tree key =
     (case lo_root tree of
        None \<Rightarrow> (- 1, tree)
      | Some root \<Rightarrow>
          (case lo_node_delete root key of
             (rc, root') \<Rightarrow> (rc, tree\<lparr> lo_root := Some root' \<rparr>)))"

text \<open>
  What an insertion below a node reports to the node above it:
  \<^item> \<open>LoDone n\<close>: the node was changed in place to \<open>n\<close>, nothing to propagate;
  \<^item> \<open>LoSplit orig l_ch r_ch key\<close>: the node was split and \<open>parent_node_build\<close> is called
    with \<open>l_ch\<close>, \<open>r_ch\<close> and \<open>key\<close>; \<open>orig\<close> is the content the node that existed before
    (the one its parent's slot points to) has now;
  \<^item> \<open>LoAssert\<close>: \<open>assert(insert < 0)\<close> of \<open>non_leaf_insert\<close> failed;
  \<^item> \<open>LoNull\<close>: the descent reached a \<open>NULL\<close> child.
\<close>

datatype lo_result =
    LoDone lo_node
  | LoSplit lo_node lo_node lo_node int
  | LoAssert
  | LoNull

text \<open>
  \<open>leaf_insert\<close> with \<open>leaf_split_left\<close>, \<open>leaf_split_right\<close> and \<open>leaf_simple_insert\<close>.
  A full leaf has \<open>BPLUS_MAX_ENTRIES = 64\<close> entries and \<open>split = 32\<close>.
  \<^item> \<open>leaf_split_left\<close> (\<open>insert < split\<close>): the new left sibling receives
    \<open>leaf[0..split - 1)\<close> with the new pair at position \<open>insert\<close>; the old leaf keeps
    \<open>leaf[split - 1..)\<close>; \<open>parent_node_build\<close> gets (sibling, leaf, \<open>leaf->key[0]\<close>).
  \<^item> \<open>leaf_split_right\<close>: the new right sibling receives \<open>leaf[split..)\<close> with the new pair
    at position \<open>insert - split\<close>; the old leaf keeps \<open>leaf[0..split)\<close>;
    \<open>parent_node_build\<close> gets (leaf, sibling, \<open>sibling->key[0]\<close>).
\<close>

definition lo_leaf_insert ::
  "(int \<times> object_pointer) list \<Rightarrow> int \<Rightarrow> object_pointer \<Rightarrow> lo_result" where
  "lo_leaf_insert es key obj_ptr =
     (let pos = key_binary_search (map fst es) (int (length es)) key
      in if pos \<ge> 0 then LoDone (LoLeaf (es[nat pos := (fst (es ! nat pos), obj_ptr)]))
         else (let ins = nat (- pos - 1)
               in if length es = BPLUS_MAX_ENTRIES
                  then (let split = (BPLUS_MAX_ENTRIES + 1) div 2
                        in if ins < split
                           then (let sibling = take ins es @ [(key, obj_ptr)]
                                                @ drop ins (take (split - 1) es);
                                     leaf' = drop (split - 1) es
                                 in LoSplit (LoLeaf leaf') (LoLeaf sibling) (LoLeaf leaf')
                                      (fst (leaf' ! 0)))
                           else (let rest = drop split es;
                                     sibling = take (ins - split) rest @ [(key, obj_ptr)]
                                                @ drop (ins - split) rest;
                                     leaf' = take split es
                                 in LoSplit (LoLeaf leaf') (LoLeaf leaf') (LoLeaf sibling)
                                      (fst (sibling ! 0))))
                  else LoDone (LoLeaf (take ins es @ [(key, obj_ptr)] @ drop ins es))))"

text \<open>
  \<open>non_leaf_insert\<close> with \<open>non_leaf_simple_insert\<close>, on a node with keys \<open>ks\<close> and children
  \<open>cs\<close>.  \<open>non_leaf_simple_insert\<close> shifts keys and pointers, stores \<open>key\<close> at \<open>insert\<close>
  and \<open>r_ch\<close> at \<open>insert + 1\<close>; it does not store \<open>l_ch\<close>, so slot \<open>insert\<close> keeps the
  pointer it had.  For a full node (\<open>children = order\<close>), \<open>split = children / 2\<close>:
  \<^item> \<open>insert < split\<close>: the sibling takes keys and children from \<open>split\<close> on, the node is cut
    to \<open>split\<close> children and the simple insertion is done in it; \<open>key[split - 1]\<close> goes up;
  \<^item> otherwise the sibling takes keys and children from \<open>split + 1\<close> on and the node is cut
    to \<open>split + 1\<close> children; \<open>key[split]\<close> goes up; the new key and \<open>r_ch\<close> are stored in
    the sibling only when \<open>new_insert = insert - split - 1 \<ge> 0\<close>.
\<close>

definition lo_non_leaf_insert ::
  "int \<Rightarrow> int list \<Rightarrow> lo_node list \<Rightarrow> lo_node \<Rightarrow> int \<Rightarrow> lo_result" where
  "lo_non_leaf_insert ord ks cs r_ch key =
     (let children = int (length cs);
          pos = key_binary_search ks (children - 1) key
      in if pos \<ge> 0 then LoAssert
         else (let ins = nat (- pos - 1)
               in if children = ord
                  then (let split = nat (children div 2)
                        in if ins < split
                           then (let split_key = ks ! (split - 1);
                                     sibling = LoNonLeaf (drop split ks) (drop split cs);
                                     node' = LoNonLeaf
                                               (take ins ks @ [key] @ drop ins (take (split - 1) ks))
                                               (take (ins + 1) cs @ [r_ch] @ drop (ins + 1) (take split cs))
                                 in LoSplit node' node' sibling split_key)
                           else (let split_key = ks ! split;
                                     sk = drop (split + 1) ks;
                                     sp = drop (split + 1) cs;
                                     sibling =
                                       (if ins \<ge> split + 1
                                        then (let new_insert = ins - split - 1
                                              in LoNonLeaf
                                                   (take new_insert sk @ [key] @ drop new_insert sk)
                                                   (take (new_insert + 1) sp @ [r_ch]
                                                      @ drop (new_insert + 1) sp))
                                        else LoNonLeaf sk sp);
                                     node' = LoNonLeaf (take split ks) (take (split + 1) cs)
                                 in LoSplit node' node' sibling split_key))
                  else LoDone (LoNonLeaf (take ins ks @ [key] @ drop ins ks)
                                 (take (ins + 1) cs @ [r_ch] @ drop (ins + 1) cs))))"

function lo_node_put :: "int \<Rightarrow> lo_node \<Rightarrow> int \<Rightarrow> object_pointer \<Rightarrow> lo_result" where
  "lo_node_put ord (LoLeaf es) key obj_ptr = lo_leaf_insert es key obj_ptr"
| "lo_node_put ord (LoNonLeaf ks cs) key obj_ptr =
     (if lo_child_slot ks cs key < length cs
      then (case lo_node_put ord (cs ! lo_child_slot ks cs key) key obj_ptr of
              LoDone c' \<Rightarrow> LoDone (LoNonLeaf ks (cs[lo_child_slot ks cs key := c']))
            | LoSplit orig l_ch r_ch up_key \<Rightarrow>
                lo_non_leaf_insert ord ks (cs[lo_child_slot ks cs key := orig]) r_ch up_key
            | LoAssert \<Rightarrow> LoAssert
            | LoNull \<Rightarrow> LoNull)
      else LoNull)"
  by pat_completeness auto
termination
proof (relation "measure (\<lambda>(ord, n, k, p). size n)")
  show "wf (measure (\<lambda>(ord, n, k, p). size n))"
    by simp
next
  fix ord :: int and ks :: "int list" and cs :: "lo_node list" and key :: int
    and obj_ptr :: object_pointer
  assume "lo_child_slot ks cs key < length cs"
  then have "cs ! lo_child_slot ks cs key \<in> set cs"
    by simp
  then have "size (cs ! lo_child_slot ks cs key) \<le> size_list size cs"
    by (simp add: size_list_estimation')
  then show "((ord, cs ! lo_child_slot ks cs key, key, obj_ptr), (ord, LoNonLeaf ks cs, key, obj_ptr))
               \<in> measure (\<lambda>(ord, n, k, p). size n)"
    by simp
qed

text \<open>
  \<open>bplus_tree_lo_put\<close>.  \<open>None\<close> is the failed assertion (the process aborts).  A split
  that reaches the root makes \<open>parent_node_build\<close> create a new root with both halves.
\<close>

definition bplus_tree_lo_put ::
  "bplus_tree_lo \<Rightarrow> int \<Rightarrow> object_pointer \<Rightarrow> (int \<times> bplus_tree_lo) option" where
  "bplus_tree_lo_put tree key obj_ptr =
     (if \<not> object_pointer_is_valid obj_ptr then Some (- 1, tree)
      else (case lo_root tree of
              None \<Rightarrow> Some (0, tree\<lparr> lo_root := Some (LoLeaf [(key, obj_ptr)]) \<rparr>)
            | Some root \<Rightarrow>
                (case lo_node_put (lo_order tree) root key obj_ptr of
                   LoDone n \<Rightarrow> Some (0, tree\<lparr> lo_root := Some n \<rparr>)
                 | LoSplit orig l_ch r_ch up_key \<Rightarrow>
                     Some (0, tree\<lparr> lo_root := Some (LoNonLeaf [up_key] [l_ch, r_ch]) \<rparr>)
                 | LoAssert \<Rightarrow> None
                 | LoNull \<Rightarrow> Some (0, tree\<lparr> lo_root := Some (LoLeaf [(key, obj_ptr)]) \<rparr>))))"

section \<open>DRAM tier: the base B+tree\<close>

text \<open>
  Modelled from the spec: the base in-memory B+tree of the DRAM tier (\<open>bplus_tree_init\<close>,
  \<open>bplus_tree_put\<close>, \<open>bplus_tree_get\<close>), whose source file is not part of the repository
  sources at hand; only its callers are.  The spec describes it as a conventional ordered
  map from integer key to integer value with \<open>put\<close>, \<open>get\<close> and \<open>delete\<close>, in which the
  value 0 is reserved as "deleted" and deleting a key that is absent is reported as a
  failure.  The callers store a pointer cast to \<open>long\<close>, so values are modelled as \<open>int\<close>.
  \<open>bplus_tree_put\<close> with value 0 deletes; \<open>bplus_tree_get\<close> of an absent key yields \<open>-1\<close>.
\<close>

type_synonym bplus_tree = "int \<Rightarrow> int option"

definition bplus_tree_init :: bplus_tree where
  "bplus_tree_init = (\<lambda>k. None)"

definition bplus_tree_put :: "bplus_tree \<Rightarrow> int \<Rightarrow> int \<Rightarrow> int \<times> bplus_tree" where
  "bplus_tree_put tree key data =
     (if data = 0
      then (case tree key of None \<Rightarrow> (- 1, tree) | Some v \<Rightarrow> (0, tree(key := None)))
      else (0, tree(key := Some data)))"

definition bplus_tree_get :: "bplus_tree \<Rightarrow> int \<Rightarrow> int" where
  "bplus_tree_get tree key = (case tree key of None \<Rightarrow> - 1 | Some v \<Rightarrow> v)"

section \<open>The tier router\<close>

datatype zipcache_obj_type =
  ZIPCACHE_OBJ_TINY | ZIPCACHE_OBJ_MEDIUM | ZIPCACHE_OBJ_LARGE | ZIPCACHE_OBJ_UNKNOWN

datatype zipcache_result =
  ZIPCACHE_OK | ZIPCACHE_ERROR | ZIPCACHE_NOT_FOUND | ZIPCACHE_OUT_OF_MEMORY
  | ZIPCACHE_INVALID_SIZE | ZIPCACHE_IO_ERROR | ZIPCACHE_TOMBSTONE

fun result_code :: "zipcache_result \<Rightarrow> int" where
  "result_code ZIPCACHE_OK = 0"
| "result_code ZIPCACHE_ERROR = - 1"
| "result_code ZIPCACHE_NOT_FOUND = - 2"
| "result_code ZIPCACHE_OUT_OF_MEMORY = - 3"
| "result_code ZIPCACHE_INVALID_SIZE = - 4"
| "result_code ZIPCACHE_IO_ERROR = - 5"
| "result_code ZIPCACHE_TOMBSTONE = - 6"

text \<open>
  \<open>zipcache_large_obj_t\<close>.  Its \<open>timestamp\<close> is written by
  \<open>zipcache_write_large_object\<close> and never read; it is left out.
\<close>

record zipcache_large_obj =
  d_lba :: "64 word"
  d_size :: u32
  d_checksum :: u32

text \<open>
  \<open>zipcache_stats_t\<close>.  The counters are 64-bit; they are modelled as \<open>nat\<close>, no run
  increments one of them \<open>2^64\<close> times.
\<close>

record zipcache_stats =
  hits_dram :: nat
  hits_lo :: nat
  hits_ssd :: nat
  misses :: nat
  puts_tiny :: nat
  puts_medium :: nat
  puts_large :: nat
  evictions :: nat
  promotions :: nat
  tombstones :: nat
  memory_used :: nat
  memory_capacity :: nat

text \<open>
  \<open>zipcache_t\<close>.  The storage file behind \<open>ssd_fd\<close> is a byte at every offset below
  \<open>ssd_file_size\<close>.  A positioned write is taken to write all its bytes; a positioned
  read returns the bytes that lie inside the file.  Locks, the eviction thread and its
  state are left out: the functions below are the bodies run under \<open>cache_lock\<close>.
\<close>

record zipcache =
  bt_dram :: bplus_tree
  bt_lo :: bplus_tree_lo
  bt_ssd :: bplus_tree_ssd
  tiny_threshold :: nat
  medium_threshold :: nat
  dram_capacity :: nat
  stats :: zipcache_stats
  ssd_file :: "nat \<Rightarrow> 8 word"
  ssd_file_size :: nat
  ssd_offset :: nat

definition ZIPCACHE_TOMBSTONE_MARKER :: int where
  "ZIPCACHE_TOMBSTONE_MARKER = 0xDEADBEEF"

definition ZIPCACHE_MAX_KEY_SIZE :: nat where
  "ZIPCACHE_MAX_KEY_SIZE = 256"

definition ZIPCACHE_LARGE_THRESHOLD :: nat where
  "ZIPCACHE_LARGE_THRESHOLD = 2 ^ 64 - 1"

text \<open>
  A key is a C string: the characters before the first NUL.  \<open>zipcache_hash_key\<close> is
  FNV-1a over them; \<open>(uint32_t)*p\<close> converts a \<open>char\<close>, which is signed on the x86-64
  target, so a byte above 127 is sign-extended.
\<close>

fun strlen :: "string \<Rightarrow> nat" where
  "strlen [] = 0"
| "strlen (c # cs) = (if c = CHR 0x00 then 0 else Suc (strlen cs))"

definition char_to_u32 :: "char \<Rightarrow> u32" where
  "char_to_u32 c = scast (of_char c :: 8 word)"

fun fnv_loop :: "u32 \<Rightarrow> string \<Rightarrow> u32" where
  "fnv_loop h [] = h"
| "fnv_loop h (c # cs) =
     (if c = CHR 0x00 then h else fnv_loop ((h XOR char_to_u32 c) * 16777619) cs)"

definition zipcache_hash_key :: "string \<Rightarrow> u32" where
  "zipcache_hash_key key = fnv_loop 2166136261 key"

text \<open>The hash is passed to the trees as a \<open>key_t\<close>, a signed \<open>int\<close>.\<close>

definition hashed_key :: "string \<Rightarrow> int" where
  "hashed_key key = sint (zipcache_hash_key key)"

text \<open>\<open>zipcache_checksum\<close>: the loop body on one byte, folded over the buffer.\<close>

definition checksum_step :: "u32 \<Rightarrow> 8 word \<Rightarrow> u32" where
  "checksum_step c b =
     (let c1 = push_bit 1 c XOR ucast b in c1 XOR drop_bit 16 c1)"

definition zipcache_checksum :: "8 word list \<Rightarrow> u32" where
  "zipcache_checksum bytes = foldl checksum_step 0 bytes"

definition zipcache_classify_object :: "zipcache \<Rightarrow> nat \<Rightarrow> zipcache_obj_type" where
  "zipcache_classify_object cache sz =
     (if sz \<le> tiny_threshold cache then ZIPCACHE_OBJ_TINY
      else if sz \<le> medium_threshold cache then ZIPCACHE_OBJ_MEDIUM
      else ZIPCACHE_OBJ_LARGE)"

text \<open>\<open>pwrite\<close> and \<open>pread\<close> on the storage file.\<close>

definition file_pwrite :: "(nat \<Rightarrow> 8 word) \<Rightarrow> nat \<Rightarrow> 8 word list \<Rightarrow> nat \<Rightarrow> (nat \<Rightarrow> 8 word)" where
  "file_pwrite f fsize buf off =
     (\<lambda>i. if off \<le> i \<and> i < off + length buf then buf ! (i - off)
          else if fsize \<le> i \<and> i < off then 0
          else f i)"

definition file_pread :: "(nat \<Rightarrow> 8 word) \<Rightarrow> nat \<Rightarrow> nat \<Rightarrow> nat \<Rightarrow> 8 word list" where
  "file_pread f fsize cnt off = map f [off..<min (off + cnt) fsize]"

text \<open>
  \<open>zipcache_write_large_object\<close>.  \<open>value\<close> is the list of the \<open>size\<close> bytes the caller's
  pointer designates.  The descriptor's \<open>size\<close> is a \<open>uint32_t\<close>: the assignment
  truncates \<open>size\<close>.
\<close>

definition zipcache_write_large_object ::
  "zipcache \<Rightarrow> 8 word list \<Rightarrow> zipcache_result \<times> zipcache_large_obj \<times> zipcache" where
  "zipcache_write_large_object cache val =
     (let sz = length val;
          desc0 = \<lparr> d_lba = 0, d_size = 0, d_checksum = 0 \<rparr>
      in if sz = 0 then (ZIPCACHE_ERROR, desc0, cache)
         else (let aligned_size = ((sz + 4095) div 4096) * 4096;
                   aligned_buffer = val @ replicate (aligned_size - sz) 0;
                   write_offset = ssd_offset cache;
                   cache' = cache\<lparr> ssd_file := file_pwrite (ssd_file cache) (ssd_file_size cache)
                                                   aligned_buffer write_offset,
                                   ssd_file_size := max (ssd_file_size cache)
                                                      (write_offset + aligned_size),
                                   ssd_offset := write_offset + aligned_size \<rparr>
               in (ZIPCACHE_OK,
                   \<lparr> d_lba = of_nat write_offset, d_size = of_nat sz,
                     d_checksum = zipcache_checksum val \<rparr>,
                   cache')))"

text \<open>
  What \<open>zipcache_get\<close> stores through its out-parameters \<open>value\<close> and \<open>size\<close>: either a
  \<open>long\<close> taken from a tree and cast to a pointer, or a freshly allocated buffer.
\<close>

datatype zipcache_value = ValuePtr int | ValueBuffer "8 word list"

definition zipcache_read_large_object ::
  "zipcache \<Rightarrow> zipcache_large_obj \<Rightarrow> zipcache_result \<times> (zipcache_value \<times> nat) option" where
  "zipcache_read_large_object cache desc =
     (let buffer = file_pread (ssd_file cache) (ssd_file_size cache)
                     (unat (d_size desc)) (unat (d_lba desc))
      in if length buffer \<noteq> unat (d_size desc) then (ZIPCACHE_IO_ERROR, None)
         else if zipcache_checksum buffer \<noteq> d_checksum desc then (ZIPCACHE_IO_ERROR, None)
         else (ZIPCACHE_OK, Some (ValueBuffer buffer, unat (d_size desc))))"

definition zipcache_invalidate_stale :: "zipcache \<Rightarrow> string \<Rightarrow> zipcache_obj_type \<Rightarrow> zipcache" where
  "zipcache_invalidate_stale cache key new_type =
     (if new_type = ZIPCACHE_OBJ_TINY \<or> new_type = ZIPCACHE_OBJ_MEDIUM
      then (if object_pointer_is_valid (bplus_tree_lo_get (bt_lo cache) (hashed_key key))
            then cache\<lparr> bt_lo := snd (bplus_tree_lo_delete (bt_lo cache) (hashed_key key)) \<rparr>
            else cache)
      else cache)"

text \<open>
  \<open>zipcache_route_put\<close>.  \<open>value\<close> is the caller's pointer as a \<open>long\<close>, \<open>val\<close> the bytes
  it designates.  \<open>None\<close> is the abort of a failed assertion in the large-object tree.
\<close>

definition zipcache_route_put ::
  "zipcache \<Rightarrow> string \<Rightarrow> int \<Rightarrow> 8 word list \<Rightarrow> zipcache_obj_type
     \<Rightarrow> (zipcache_result \<times> zipcache) option" where
  "zipcache_route_put cache key value val type =
     (if type = ZIPCACHE_OBJ_TINY \<or> type = ZIPCACHE_OBJ_MEDIUM
      then (case bplus_tree_put (bt_dram cache) (hashed_key key) value of
              (dram_result, dram') \<Rightarrow>
                if dram_result = 0
                then (let st = stats cache;
                          st1 = (if type = ZIPCACHE_OBJ_TINY
                                 then st\<lparr> puts_tiny := puts_tiny st + 1 \<rparr>
                                 else st\<lparr> puts_medium := puts_medium st + 1 \<rparr>);
                          st2 = st1\<lparr> memory_used := memory_used st1 + length val \<rparr>
                      in Some (ZIPCACHE_OK,
                               zipcache_invalidate_stale
                                 (cache\<lparr> bt_dram := dram', stats := st2 \<rparr>) key type))
                else Some (ZIPCACHE_ERROR, cache\<lparr> bt_dram := dram' \<rparr>))
      else if type = ZIPCACHE_OBJ_LARGE
      then (case zipcache_write_large_object cache val of
              (wres, descriptor, cache1) \<Rightarrow>
                if wres \<noteq> ZIPCACHE_OK then Some (wres, cache1)
                else (case bplus_tree_lo_put (bt_lo cache1) (hashed_key key)
                             \<lparr> op_lba = d_lba descriptor, op_size = d_size descriptor,
                               op_checksum = d_checksum descriptor \<rparr> of
                        None \<Rightarrow> None
                      | Some (lo_result, lo') \<Rightarrow>
                          if lo_result = 0
                          then (let st1 = (stats cache1)\<lparr> puts_large := puts_large (stats cache1) + 1 \<rparr>;
                                    dram' = snd (bplus_tree_put (bt_dram cache1) (hashed_key key)
                                                   ZIPCACHE_TOMBSTONE_MARKER);
                                    st2 = st1\<lparr> tombstones := tombstones st1 + 1 \<rparr>
                                in Some (ZIPCACHE_OK,
                                         cache1\<lparr> bt_lo := lo', bt_dram := dram', stats := st2 \<rparr>))
                          else Some (ZIPCACHE_ERROR, cache1\<lparr> bt_lo := lo' \<rparr>)))
      else Some (ZIPCACHE_INVALID_SIZE, cache))"

definition zipcache_put ::
  "zipcache \<Rightarrow> string \<Rightarrow> int \<Rightarrow> 8 word list \<Rightarrow> (zipcache_result \<times> zipcache) option" where
  "zipcache_put cache key value val =
     (if value = 0 \<or> length val = 0 then Some (ZIPCACHE_ERROR, cache)
      else if length val > ZIPCACHE_LARGE_THRESHOLD \<or> strlen key > ZIPCACHE_MAX_KEY_SIZE
      then Some (ZIPCACHE_INVALID_SIZE, cache)
      else zipcache_route_put cache key value val
             (zipcache_classify_object cache (length val)))"

definition zipcache_promote_object ::
  "zipcache \<Rightarrow> string \<Rightarrow> int \<Rightarrow> nat \<Rightarrow> zipcache_result \<times> zipcache" where
  "zipcache_promote_object cache key value sz =
     (case bplus_tree_put (bt_dram cache) (hashed_key key) value of
        (rc, dram') \<Rightarrow>
          if rc = 0
          then (ZIPCACHE_OK,
                cache\<lparr> bt_dram := dram',
                       stats := (stats cache)\<lparr> memory_used := memory_used (stats cache) + sz \<rparr> \<rparr>)
          else (ZIPCACHE_ERROR, cache\<lparr> bt_dram := dram' \<rparr>))"

text \<open>
  \<open>zipcache_coordinated_read\<close>.  The result is the return code, the values stored through
  \<open>value\<close> and \<open>size\<close> (\<open>None\<close> when the function stores nothing), and the cache.
\<close>

definition zipcache_coordinated_read ::
  "zipcache \<Rightarrow> string \<Rightarrow> zipcache_result \<times> (zipcache_value \<times> nat) option \<times> zipcache" where
  "zipcache_coordinated_read cache key =
     (let key_hash = hashed_key key;
          dram_result = bplus_tree_get (bt_dram cache) key_hash
      in if dram_result > 0
         then (if dram_result = ZIPCACHE_TOMBSTONE_MARKER
               then (ZIPCACHE_TOMBSTONE, None,
                     cache\<lparr> stats := (stats cache)\<lparr> misses := misses (stats cache) + 1 \<rparr> \<rparr>)
               else (ZIPCACHE_OK, Some (ValuePtr dram_result, 0),
                     cache\<lparr> stats := (stats cache)\<lparr> hits_dram := hits_dram (stats cache) + 1 \<rparr> \<rparr>))
         else (let optr = bplus_tree_lo_get (bt_lo cache) key_hash;
                   lo_read = (if object_pointer_is_valid optr
                              then zipcache_read_large_object cache
                                     \<lparr> d_lba = op_lba optr, d_size = op_size optr,
                                       d_checksum = op_checksum optr \<rparr>
                              else (ZIPCACHE_NOT_FOUND, None))
               in if object_pointer_is_valid optr \<and> fst lo_read = ZIPCACHE_OK
                  then (ZIPCACHE_OK, snd lo_read,
                        cache\<lparr> stats := (stats cache)\<lparr> hits_lo := hits_lo (stats cache) + 1 \<rparr> \<rparr>)
                  else (case bplus_tree_ssd_get (bt_ssd cache) key_hash of
                          (ssd_result, ssd') \<Rightarrow>
                            (let cache1 = cache\<lparr> bt_ssd := ssd' \<rparr>
                             in if ssd_result > 0
                                then (let cache2 = cache1\<lparr> stats := (stats cache1)
                                                      \<lparr> hits_ssd := hits_ssd (stats cache1) + 1 \<rparr> \<rparr>;
                                          cache3 = (if 0 \<le> medium_threshold cache2
                                                    then (let cp = snd (zipcache_promote_object cache2 key
                                                                          ssd_result 0)
                                                          in cp\<lparr> stats := (stats cp)
                                                                 \<lparr> promotions := promotions (stats cp) + 1 \<rparr> \<rparr>)
                                                    else cache2)
                                      in (ZIPCACHE_OK, Some (ValuePtr ssd_result, 0), cache3))
                                else (ZIPCACHE_NOT_FOUND, None,
                                      cache1\<lparr> stats := (stats cache1)
                                                \<lparr> misses := misses (stats cache1) + 1 \<rparr> \<rparr>)))))"

definition zipcache_get ::
  "zipcache \<Rightarrow> string \<Rightarrow> zipcache_result \<times> (zipcache_value \<times> nat) option \<times> zipcache" where
  "zipcache_get cache key =
     (if strlen key > ZIPCACHE_MAX_KEY_SIZE then (ZIPCACHE_INVALID_SIZE, None, cache)
      else zipcache_coordinated_read cache key)"

text \<open>
  \<open>zipcache_delete\<close>.  \<open>None\<close> stands for a call of the SSD tree that does not return.
\<close>

definition zipcache_delete :: "zipcache \<Rightarrow> string \<Rightarrow> (zipcache_result \<times> zipcache) option" where
  "zipcache_delete cache key =
     (let key_hash = hashed_key key;
          result0 = ZIPCACHE_NOT_FOUND
      in case bplus_tree_put (bt_dram cache) key_hash 0 of
           (dram_result, dram') \<Rightarrow>
             (let result1 = (if dram_result = 0 then ZIPCACHE_OK else result0)
              in case bplus_tree_lo_delete (bt_lo cache) key_hash of
                   (lo_result, lo') \<Rightarrow>
                     (let result2 = (if lo_result = 0 then ZIPCACHE_OK else result1)
                      in case bplus_tree_ssd_put (bt_ssd cache) key_hash 0 of
                           None \<Rightarrow> None
                         | Some (ssd_result, ssd') \<Rightarrow>
                             Some (if ssd_result = 0 then ZIPCACHE_OK else result2,
                                   cache\<lparr> bt_dram := dram', bt_lo := lo', bt_ssd := ssd' \<rparr>))))"

text \<open>
  \<open>zipcache_init\<close> and \<open>zipcache_init_ex\<close>.  Both files may exist before the cache is
  created: \<open>file0\<close> with \<open>fsize0\<close> bytes is the storage file of the large objects, \<open>ssd0\<close>
  the block file of the SSD tree.
\<close>

definition zipcache_init ::
  "nat \<Rightarrow> (nat \<Rightarrow> 8 word) \<Rightarrow> nat \<Rightarrow> (u32 \<Rightarrow> sub_page) \<Rightarrow> zipcache" where
  "zipcache_init dram_capacity_mb file0 fsize0 ssd0 =
     \<lparr> bt_dram = bplus_tree_init,
       bt_lo = the (bplus_tree_lo_init 16),
       bt_ssd = the (bplus_tree_ssd_init 16 64 ssd0),
       tiny_threshold = 128, medium_threshold = 2048,
       dram_capacity = dram_capacity_mb * 1024 * 1024,
       stats = \<lparr> hits_dram = 0, hits_lo = 0, hits_ssd = 0, misses = 0,
                 puts_tiny = 0, puts_medium = 0, puts_large = 0,
                 evictions = 0, promotions = 0, tombstones = 0,
                 memory_used = 0, memory_capacity = dram_capacity_mb * 1024 * 1024 \<rparr>,
       ssd_file = file0, ssd_file_size = fsize0, ssd_offset = 0 \<rparr>"

definition zipcache_init_ex ::
  "nat \<Rightarrow> (nat \<Rightarrow> 8 word) \<Rightarrow> nat \<Rightarrow> (u32 \<Rightarrow> sub_page) \<Rightarrow> nat \<Rightarrow> nat \<Rightarrow> zipcache option" where
  "zipcache_init_ex dram_capacity_mb file0 fsize0 ssd0 tiny_max medium_max =
     (if tiny_max = 0 \<or> tiny_max \<ge> medium_max \<or> medium_max \<ge> ZIPCACHE_LARGE_THRESHOLD
      then None
      else Some ((zipcache_init dram_capacity_mb file0 fsize0 ssd0)
                   \<lparr> tiny_threshold := tiny_max, medium_threshold := medium_max \<rparr>))"

section \<open>States used in the statements below\<close>

text \<open>The sum of \<open>header.entries\<close> over the materialized sub-pages of a super-leaf.\<close>

definition super_leaf_entries_sum :: "bplus_super_leaf \<Rightarrow> int" where
  "super_leaf_entries_sum sl =
     sum_list (map (\<lambda>c. case c of None \<Rightarrow> 0 | Some sp \<Rightarrow> int (length sp))
                 (cached_sub_pages sl))"



text \<open>
  A cache created by \<open>zipcache_init\<close> with 256 MB of DRAM over an empty storage file and
  an all-zero block file, and two of its keys.
\<close>

definition fresh_cache :: zipcache where
  "fresh_cache = zipcache_init 256 (\<lambda>i. 0) 0 (\<lambda>b. [])"

text \<open>
  The same cache after \<open>bplus_tree_ssd_put(cache->bt_ssd, hash("k"), 42)\<close>: the key lives
  in the SSD tier only.
\<close>

definition ssd_only_cache :: zipcache where
  "ssd_only_cache =
     fresh_cache\<lparr> bt_ssd := snd (the (bplus_tree_ssd_put (bt_ssd fresh_cache) (hashed_key ''k'') 42)) \<rparr>"

text \<open>
  A cache whose large-object index holds a descriptor for \<open>"k"\<close> (3 bytes at offset 0,
  checksum of \<open>"abc"\<close>), while the first byte of the object on the storage file has
  been changed from \<open>a\<close> to \<open>b\<close>; the DRAM tree has no entry for the key.
\<close>

definition corrupted_lo_cache :: zipcache where
  "corrupted_lo_cache =
     fresh_cache
       \<lparr> bt_lo := snd (the (bplus_tree_lo_put (bt_lo fresh_cache) (hashed_key ''k'')
                              \<lparr> op_lba = 0, op_size = 3,
                                op_checksum = zipcache_checksum [0x61, 0x62, 0x63] \<rparr>)),
         ssd_file := file_pwrite (\<lambda>i. 0) 0 ([0x62, 0x62, 0x63] @ replicate 4093 0) 0,
         ssd_file_size := 4096, ssd_offset := 4096 \<rparr>"

text \<open>The fresh cache after a put of 4096 bytes, each 65, under \<open>"k"\<close>.\<close>

definition large_k_cache :: zipcache where
  "large_k_cache = snd (the (zipcache_put fresh_cache ''k'' 4096 (replicate 4096 65)))"

text \<open>A new super-leaf after inserting key 1 with value 10 and then key 1 with value 20.\<close>

definition once_inserted_leaf :: "int \<times> disk_manager \<times> bplus_super_leaf" where
  "once_inserted_leaf =
     super_leaf_insert_hashed (disk_manager_init (\<lambda>b. [])) super_leaf_create 1 10"

definition twice_inserted_leaf :: "int \<times> disk_manager \<times> bplus_super_leaf" where
  "twice_inserted_leaf =
     super_leaf_insert_hashed (fst (snd once_inserted_leaf)) (snd (snd once_inserted_leaf)) 1 20"

text \<open>
  The bitmap of an allocator has a word for every block: the precondition of every
  bitmap access of the source.  \<open>block_allocator_init\<close> establishes it.
\<close>

definition block_allocator_wf :: "block_allocator \<Rightarrow> bool" where
  "block_allocator_wf a = (unat (total_blocks a) \<le> 32 * length (bitmap a))"

text \<open>
  Operations of a client on the cache, and the cache after a sequence of them; \<open>None\<close>
  when one of the calls does not return.
\<close>

datatype zipcache_op =
    OpPut string int "8 word list"
  | OpGet string
  | OpDelete string

fun op_key :: "zipcache_op \<Rightarrow> string" where
  "op_key (OpPut key value val) = key"
| "op_key (OpGet key) = key"
| "op_key (OpDelete key) = key"

fun apply_op :: "zipcache \<Rightarrow> zipcache_op \<Rightarrow> zipcache option" where
  "apply_op cache (OpPut key value val) = map_option snd (zipcache_put cache key value val)"
| "apply_op cache (OpGet key) = Some (snd (snd (zipcache_get cache key)))"
| "apply_op cache (OpDelete key) = map_option snd (zipcache_delete cache key)"

fun apply_ops :: "zipcache \<Rightarrow> zipcache_op list \<Rightarrow> zipcache option" where
  "apply_ops cache [] = Some cache"
| "apply_ops cache (x # xs) =
     (case apply_op cache x of None \<Rightarrow> None | Some cache' \<Rightarrow> apply_ops cache' xs)"

text \<open>Every leaf of the large-object tree has strictly increasing keys.\<close>

fun lo_sorted :: "lo_node \<Rightarrow> bool" where
  "lo_sorted (LoLeaf es) = sorted_wrt (<) (map fst es)"
| "lo_sorted (LoNonLeaf ks cs) = list_all lo_sorted cs"

definition lo_tree_sorted :: "bplus_tree_lo \<Rightarrow> bool" where
  "lo_tree_sorted tree = (case lo_root tree of None \<Rightarrow> True | Some root \<Rightarrow> lo_sorted root)"

text \<open>The fresh cache after a put of the three bytes \<open>abc\<close> under \<open>"k"\<close>.\<close>

definition tiny_k_cache :: zipcache where
  "tiny_k_cache = snd (the (zipcache_put fresh_cache ''k'' 4096 [0x61, 0x62, 0x63]))"

text \<open>
  The fresh cache after a put of \<open>abc\<close> (at address 4096) under \<open>"costarring"\<close> and a put
  of \<open>xyz\<close> (at address 8192) under \<open>"liquid"\<close>; the two keys have the same FNV-1a hash.
\<close>

definition collision_cache :: zipcache where
  "collision_cache =
     snd (the (zipcache_put
                 (snd (the (zipcache_put fresh_cache ''costarring'' 4096 [0x61, 0x62, 0x63])))
                 ''liquid'' 8192 [0x78, 0x79, 0x7A]))"

text \<open>
  The keys \<open>"key_0"\<close>, ..., \<open>"key_97"\<close>, a value of 4096 bytes, and the fresh cache after
  puts of this value (at address 4096) under the first \<open>n\<close> of the keys, in this order.
\<close>

definition lo_trace_keys :: "string list" where
  "lo_trace_keys =
     [''key_0'', ''key_1'', ''key_2'', ''key_3'', ''key_4'', ''key_5'', ''key_6'', ''key_7'',
      ''key_8'', ''key_9'', ''key_10'', ''key_11'', ''key_12'', ''key_13'', ''key_14'', ''key_15'',
      ''key_16'', ''key_17'', ''key_18'', ''key_19'', ''key_20'', ''key_21'', ''key_22'', ''key_23'',
      ''key_24'', ''key_25'', ''key_26'', ''key_27'', ''key_28'', ''key_29'', ''key_30'', ''key_31'',
      ''key_32'', ''key_33'', ''key_34'', ''key_35'', ''key_36'', ''key_37'', ''key_38'', ''key_39'',
      ''key_40'', ''key_41'', ''key_42'', ''key_43'', ''key_44'', ''key_45'', ''key_46'', ''key_47'',
      ''key_48'', ''key_49'', ''key_50'', ''key_51'', ''key_52'', ''key_53'', ''key_54'', ''key_55'',
      ''key_56'', ''key_57'', ''key_58'', ''key_59'', ''key_60'', ''key_61'', ''key_62'', ''key_63'',
      ''key_64'', ''key_65'', ''key_66'', ''key_67'', ''key_68'', ''key_69'', ''key_70'', ''key_71'',
      ''key_72'', ''key_73'', ''key_74'', ''key_75'', ''key_76'', ''key_77'', ''key_78'', ''key_79'',
      ''key_80'', ''key_81'', ''key_82'', ''key_83'', ''key_84'', ''key_85'', ''key_86'', ''key_87'',
      ''key_88'', ''key_89'', ''key_90'', ''key_91'', ''key_92'', ''key_93'', ''key_94'', ''key_95'',
      ''key_96'', ''key_97'']"

definition lo_trace_value :: "8 word list" where
  "lo_trace_value = replicate 4096 65"

definition lo_trace_cache :: "nat \<Rightarrow> zipcache" where
  "lo_trace_cache n =
     the (apply_ops fresh_cache (map (\<lambda>key. OpPut key 4096 lo_trace_value) (take n lo_trace_keys)))"

text \<open>
  The object pointer \<open>zipcache_route_put\<close> hands to the large-object index for this
  value written at offset \<open>n\<close>, and the index after \<open>bplus_tree_lo_put\<close> of the pointers for
  the offsets \<open>n\<close>, \<open>n + 4096\<close>, ... under the keys \<open>ks\<close>; \<open>None\<close> when one of the puts
  aborts or fails.
\<close>

definition lo_trace_ptr :: "nat \<Rightarrow> object_pointer" where
  "lo_trace_ptr n =
     \<lparr> op_lba = of_nat n, op_size = 4096,
       op_checksum = zipcache_checksum lo_trace_value \<rparr>"

fun lo_put_all :: "bplus_tree_lo \<Rightarrow> nat \<Rightarrow> int list \<Rightarrow> bplus_tree_lo option" where
  "lo_put_all tree n [] = Some tree"
| "lo_put_all tree n (k # ks) =
     (case bplus_tree_lo_put tree k (lo_trace_ptr n) of
        Some (rc, tree') \<Rightarrow> if rc = 0 then lo_put_all tree' (n + 4096) ks else None
      | None \<Rightarrow> None)"









section \<open>Evaluation lemmas\<close>

lemma key_binary_search_Nil: "key_binary_search [] 0 k = - 1"
  by (simp add: key_binary_search_def bsearch_loop.simps)

lemma key_binary_search_single_hit: "key_binary_search [k] 1 k = 0"
  by (simp add: key_binary_search_def bsearch_loop.simps)

lemma key_binary_search_root_without_keys:
  "key_binary_search [] 0 k = - 1 \<and> key_binary_search [] (- 1) k = 0"
  by (simp add: key_binary_search_def bsearch_loop.simps)

lemma hashed_key_k: "hashed_key ''k'' = - 301188886"
  by (simp add: hashed_key_def zipcache_hash_key_def char_to_u32_def)

lemma replicate_16: "replicate 16 x = [x, x, x, x, x, x, x, x, x, x, x, x, x, x, x, x]"
  by (simp add: numeral_eq_Suc)

lemma allocate_block_fresh:
  "allocate_block (block_allocator_init 262144) =
     (0, \<lparr> bitmap = (replicate 8192 0)[0 := 1], total_blocks = 262144,
           allocated_blocks = 1, next_search_hint = 1 \<rparr>)"
  by (simp add: allocate_block_def block_allocator_init_def allocate_block_scan.simps
      block_bit_set_def block_bit_mark_def)

lemmas ssd_eval =
  super_leaf_insert_hashed_def super_leaf_load_sub_page_by_hash_def super_leaf_create_def
  super_leaf_search_hashed_def
  hash_key_to_sub_page_def SUB_PAGES_PER_SUPER_LEAF_def INVALID_BLOCK_ID_def
  sub_page_create_def sub_page_is_full_def ENTRIES_PER_SUB_PAGE_def sub_page_insert_def
  sub_page_search_def super_leaf_is_full_def disk_manager_init_def

lemmas router_eval =
  zipcache_delete_def zipcache_get_def zipcache_coordinated_read_def zipcache_put_def
  zipcache_route_put_def zipcache_classify_object_def zipcache_write_large_object_def
  zipcache_read_large_object_def zipcache_invalidate_stale_def zipcache_promote_object_def
  bplus_tree_put_def bplus_tree_get_def bplus_tree_init_def
  bplus_tree_lo_get_def bplus_tree_lo_put_def bplus_tree_lo_delete_def bplus_tree_lo_init_def
  lo_leaf_insert_def object_pointer_is_valid_def INVALID_OBJECT_POINTER_def
  bplus_tree_ssd_get_def bplus_tree_search_def bplus_tree_ssd_put_def
  ZIPCACHE_MAX_KEY_SIZE_def ZIPCACHE_LARGE_THRESHOLD_def ZIPCACHE_TOMBSTONE_MARKER_def
  BPLUS_MAX_ENTRIES_def Let_def

lemma ssd_put_k:
  "bplus_tree_ssd_put (bt_ssd fresh_cache) (hashed_key ''k'') 42 =
     Some (0, \<lparr> ssd_order = 16, ssd_entries = 64, ssd_level = 1,
                ssd_root = Some \<lparr> nl_key = [],
                   nl_sub_ptr = [\<lparr> total_entries = 1, active_sub_pages = 6,
                      next_super_leaf = - 1, prev_super_leaf = - 1,
                      sub_page_blocks = (replicate 16 INVALID_BLOCK_ID)[5 := 0],
                      cached_sub_pages = (replicate 16 None)[5 := Some [(hashed_key ''k'', 42)]],
                      dirty_flags = (replicate 16 0)[5 := 1] \<rparr>] \<rparr>,
                disk_mgr = \<lparr> allocator = \<lparr> bitmap = (replicate 8192 0)[0 := 1], total_blocks = 262144,
                                 allocated_blocks = 1, next_search_hint = 1 \<rparr>,
                              total_4kb_blocks = 262144, disk_blocks = (\<lambda>b. []) \<rparr> \<rparr>)"
  by (simp add: hashed_key_k fresh_cache_def zipcache_init_def bplus_tree_ssd_init_def
      bplus_tree_ssd_put_def bplus_tree_insert.simps ssd_eval allocate_block_fresh
      key_binary_search_Nil)

section \<open>The router's coordinated read\<close>

text \<open>
  Claim C1 says that a GET of a key whose DRAM entry is the tombstone sentinel goes on to
  the large-object index and returns the large object as a hit.  The code does not: after
  \<open>zipcache_put\<close> of a 4096-byte value under \<open>"k"\<close> into a fresh cache the put returns OK,
  the DRAM tree holds the tombstone, the large-object index holds a valid descriptor, and
  \<open>zipcache_get\<close> of \<open>"k"\<close> returns \<open>ZIPCACHE_TOMBSTONE\<close> without storing a value.
\<close>

theorem zipcache_get_large_object_returns_tombstone:
  "zipcache_put fresh_cache ''k'' 4096 (replicate 4096 65) = Some (ZIPCACHE_OK, large_k_cache)
   \<and> bplus_tree_get (bt_dram large_k_cache) (hashed_key ''k'') = ZIPCACHE_TOMBSTONE_MARKER
   \<and> object_pointer_is_valid (bplus_tree_lo_get (bt_lo large_k_cache) (hashed_key ''k''))
   \<and> fst (zipcache_get large_k_cache ''k'') = ZIPCACHE_TOMBSTONE
   \<and> fst (snd (zipcache_get large_k_cache ''k'')) = None"
  by (simp add: large_k_cache_def router_eval fresh_cache_def zipcache_init_def hashed_key_k
      key_binary_search_Nil key_binary_search_single_hit)

text \<open>Claim C1: the GET of the key just put does not return OK.\<close>

theorem zipcache_get_large_object_returns_tombstone_witness:
  "fst (zipcache_get large_k_cache ''k'') \<noteq> ZIPCACHE_OK"
  using zipcache_get_large_object_returns_tombstone by simp

text \<open>
  Claim C2 says that a checksum mismatch on a large-object read makes the GET return
  \<open>IO_ERROR\<close> without looking into the SSD tier.  The code does not: in
  \<open>corrupted_lo_cache\<close> the DRAM tree has no entry for \<open>"k"\<close>, the index yields a valid
  descriptor, \<open>zipcache_read_large_object\<close> reports \<open>IO_ERROR\<close> for it, and \<open>zipcache_get\<close>
  goes on to the SSD tier and returns \<open>NOT_FOUND\<close>.
\<close>

theorem zipcache_get_checksum_mismatch_falls_through:
  "bplus_tree_get (bt_dram corrupted_lo_cache) (hashed_key ''k'') = - 1
   \<and> object_pointer_is_valid (bplus_tree_lo_get (bt_lo corrupted_lo_cache) (hashed_key ''k''))
   \<and> fst (zipcache_read_large_object corrupted_lo_cache
              \<lparr> d_lba = 0, d_size = 3, d_checksum = zipcache_checksum [0x61, 0x62, 0x63] \<rparr>)
       = ZIPCACHE_IO_ERROR
   \<and> fst (zipcache_get corrupted_lo_cache ''k'') = ZIPCACHE_NOT_FOUND"
  by (simp add: router_eval corrupted_lo_cache_def fresh_cache_def zipcache_init_def hashed_key_k
      key_binary_search_Nil key_binary_search_single_hit key_binary_search_root_without_keys
      bplus_tree_ssd_init_def file_pread_def file_pwrite_def zipcache_checksum_def
      checksum_step_def upt_rec)

text \<open>Claim C2: the GET over the corrupted object does not return \<open>IO_ERROR\<close>.\<close>

theorem zipcache_get_checksum_mismatch_falls_through_witness:
  "fst (zipcache_get corrupted_lo_cache ''k'') \<noteq> ZIPCACHE_IO_ERROR"
  using zipcache_get_checksum_mismatch_falls_through by simp

section \<open>Deleting through the router\<close>

text \<open>
  Claim C5 says that \<open>zipcache_delete\<close> deletes the key from all three tiers.  The code
  does not delete from the SSD tier: for the key \<open>"k"\<close> that lives in the SSD tier only,
  \<open>zipcache_delete\<close> returns \<open>NOT_FOUND\<close> and leaves the cache as it was; the SSD tree
  still returns the value 42 and a following \<open>zipcache_get\<close> is a hit.
\<close>

theorem zipcache_delete_ssd_only_key:
  "zipcache_delete ssd_only_cache ''k'' = Some (ZIPCACHE_NOT_FOUND, ssd_only_cache)
   \<and> fst (bplus_tree_ssd_get (bt_ssd ssd_only_cache) (hashed_key ''k'')) = 42
   \<and> (case zipcache_get ssd_only_cache ''k'' of
         (res, out, c) \<Rightarrow> res = ZIPCACHE_OK \<and> out = Some (ValuePtr 42, 0))"
  apply (simp add: ssd_only_cache_def ssd_put_k)
  apply (simp add: router_eval fresh_cache_def zipcache_init_def hashed_key_k key_binary_search_Nil
      key_binary_search_root_without_keys ssd_eval key_binary_search_single_hit)
  done

text \<open>Claim C5: the delete of the SSD-resident key reports \<open>NOT_FOUND\<close>.\<close>

theorem zipcache_delete_ssd_only_key_witness:
  "fst (the (zipcache_delete ssd_only_cache ''k'')) = ZIPCACHE_NOT_FOUND"
  using zipcache_delete_ssd_only_key by simp

text \<open>
  Claim C10: \<open>bplus_tree_ssd_put\<close> with the value 0 returns \<open>-1\<close> and leaves the tree
  unchanged, for every tree and key; hence \<open>zipcache_delete\<close>, which passes 0 to the SSD
  tier, always returns and never changes the SSD tree.
\<close>

theorem bplus_tree_ssd_put_zero_rejected:
  "bplus_tree_ssd_put tree key 0 = Some (- 1, tree)
   \<and> (\<exists>res cache'. zipcache_delete cache skey = Some (res, cache')
         \<and> bt_ssd cache' = bt_ssd cache)"
  by (simp add: bplus_tree_ssd_put_def zipcache_delete_def Let_def split: prod.splits)

text \<open>Claim C10 at the cache whose SSD tier holds \<open>"k"\<close>.\<close>

theorem bplus_tree_ssd_put_zero_rejected_witness:
  "bplus_tree_ssd_put (bt_ssd ssd_only_cache) (hashed_key ''k'') 0
     = Some (- 1, bt_ssd ssd_only_cache)
   \<and> (\<exists>res cache'. zipcache_delete ssd_only_cache ''k'' = Some (res, cache')
         \<and> bt_ssd cache' = bt_ssd ssd_only_cache)"
  using bplus_tree_ssd_put_zero_rejected
          [of "bt_ssd ssd_only_cache" "hashed_key ''k''" ssd_only_cache "''k''"]
  by simp

section \<open>Inserting into a super-leaf\<close>

text \<open>
  Claim C7 says that \<open>super_leaf_insert_hashed\<close> keeps \<open>total_entries\<close> equal to the sum of
  the entries of the materialized sub-pages, also when the key is already present.  The
  code does not: inserting key 1 twice into a new super-leaf updates the value in place
  (the sub-page keeps one entry) and still increments \<open>total_entries\<close> to 2.
\<close>

theorem super_leaf_insert_existing_key_overcounts:
  "fst once_inserted_leaf = 0
   \<and> total_entries (snd (snd once_inserted_leaf)) = 1
   \<and> super_leaf_entries_sum (snd (snd once_inserted_leaf)) = 1
   \<and> fst twice_inserted_leaf = 0
   \<and> total_entries (snd (snd twice_inserted_leaf)) = 2
   \<and> super_leaf_entries_sum (snd (snd twice_inserted_leaf)) = 1"
  by (simp add: once_inserted_leaf_def twice_inserted_leaf_def ssd_eval allocate_block_fresh
      key_binary_search_Nil key_binary_search_single_hit super_leaf_entries_sum_def replicate_16)

text \<open>Claim C7: after the second insert the counter and the sum differ.\<close>

theorem super_leaf_insert_existing_key_overcounts_witness:
  "total_entries (snd (snd twice_inserted_leaf))
     \<noteq> super_leaf_entries_sum (snd (snd twice_inserted_leaf))"
  using super_leaf_insert_existing_key_overcounts by simp








section \<open>The block allocator\<close>

lemma and_push_bit_1_iff: "((w::u32) AND push_bit n 1 \<noteq> 0) \<longleftrightarrow> bit w n"
  using bit_iff_and_push_bit_not_eq_0 by blast

lemma block_index_inj:
  assumes "unat ((b::u32) div 32) = unat (b' div 32)" and "unat (b mod 32) = unat (b' mod 32)"
  shows "b = b'"
proof -
  have d: "b div 32 = b' div 32" and m: "b mod 32 = b' mod 32"
    using assms by (simp_all add: word_unat_eq_iff)
  have "b = (b div 32) * 32 + b mod 32"
    by (simp add: word_mod_div_equality)
  also have "\<dots> = (b' div 32) * 32 + b' mod 32" using d m by simp
  also have "\<dots> = b'"
    by (simp add: word_mod_div_equality)
  finally show ?thesis .
qed

lemma mark_clear_word: "\<not> bit (w::u32) n \<Longrightarrow> (w OR push_bit n 1) AND NOT (push_bit n 1) = w"
  by (rule bit_word_eqI) (auto simp: bit_simps)

lemma mark_clear_word_swap:
  "n \<noteq> m \<Longrightarrow> ((w::u32) OR push_bit m 1) AND NOT (push_bit n 1) = (w AND NOT (push_bit n 1)) OR push_bit m 1"
  by (rule bit_word_eqI) (auto simp: bit_simps)

lemma bit_mark_word: "n < 32 \<Longrightarrow> bit ((w::u32) OR push_bit n 1) m \<longleftrightarrow> (m = n \<or> bit w m)"
  by (auto simp: bit_simps)

lemma bit_clear_word: "n < 32 \<Longrightarrow> bit ((w::u32) AND NOT (push_bit n 1)) m \<longleftrightarrow> (m \<noteq> n \<and> bit w m)"
  by (auto simp: bit_simps dest: bit_imp_le_length)

lemma less_total_not_invalid: "(b::u32) < t \<Longrightarrow> b \<noteq> INVALID_BLOCK_ID"
proof
  assume "b < t" and "b = INVALID_BLOCK_ID"
  then have "unat (0xFFFFFFFF :: u32) < unat t"
    by (simp add: word_less_nat_alt INVALID_BLOCK_ID_def)
  moreover have "unat t < 2 ^ 32"
    using unsigned_less [of t, where ?'a = nat] by simp
  ultimately show False by simp
qed

lemma and_pow2_iff: "((w::u32) AND 2 ^ n \<noteq> 0) \<longleftrightarrow> bit w n"
  using and_push_bit_1_iff [of w n] by simp

lemmas mark_clear_word_pow2 = mark_clear_word [simplified]
lemmas mark_clear_word_swap_pow2 = mark_clear_word_swap [simplified]
lemmas bit_mark_word_pow2 = bit_mark_word [simplified]
lemmas bit_clear_word_pow2 = bit_clear_word [simplified]

lemma bit_index_lt: "unat ((b::u32) mod 32) < 32"
  by (simp add: unat_mod)

lemma block_bit_set_iff:
  "block_bit_set bm b \<longleftrightarrow> bit (bm ! unat (b div 32)) (unat (b mod 32))"
  by (simp add: block_bit_set_def and_pow2_iff)

lemma length_block_bit_mark [simp]: "length (block_bit_mark bm b) = length bm"
  by (simp add: block_bit_mark_def)

lemma length_block_bit_clear [simp]: "length (block_bit_clear bm b) = length bm"
  by (simp add: block_bit_clear_def)

lemma block_bit_set_mark:
  assumes "unat (b div 32) < length bm"
  shows "block_bit_set (block_bit_mark bm b) b' \<longleftrightarrow> (b' = b \<or> block_bit_set bm b')"
proof (cases "unat (b' div 32) = unat (b div 32)")
  case True
  then show ?thesis
    using assms block_index_inj [of b' b]
    by (auto simp: block_bit_set_iff block_bit_mark_def bit_mark_word_pow2 bit_index_lt)
next
  case False
  then show ?thesis
    by (auto simp: block_bit_set_iff block_bit_mark_def)
qed

lemma block_bit_clear_mark:
  assumes "unat (b div 32) < length bm" and "\<not> block_bit_set bm b"
  shows "block_bit_clear (block_bit_mark bm b) b = bm"
  using assms
  by (simp add: block_bit_set_iff block_bit_mark_def block_bit_clear_def mark_clear_word_pow2)

lemma block_bit_clear_mark_swap:
  assumes "b \<noteq> b'"
  shows "block_bit_clear (block_bit_mark bm b') b = block_bit_mark (block_bit_clear bm b) b'"
proof (cases "unat (b div 32) = unat (b' div 32)")
  case True
  then have ne: "unat (b mod 32) \<noteq> unat (b' mod 32)"
    using assms block_index_inj by blast
  show ?thesis
  proof (cases "unat (b div 32) < length bm")
    case in_range: True
    then show ?thesis
      using True ne by (simp add: block_bit_mark_def block_bit_clear_def mark_clear_word_swap_pow2)
  next
    case False
    then show ?thesis
      using True by (simp add: block_bit_mark_def block_bit_clear_def list_update_beyond)
  qed
next
  case False
  then show ?thesis
    by (simp add: block_bit_mark_def block_bit_clear_def list_update_swap)
qed

lemma block_bit_clear_foldl_mark:
  "b \<notin> set ids \<Longrightarrow>
   block_bit_clear (foldl block_bit_mark bm ids) b = foldl block_bit_mark (block_bit_clear bm b) ids"
proof (induction ids arbitrary: bm)
  case Nil
  then show ?case by simp
next
  case (Cons x xs)
  then have "block_bit_clear (foldl block_bit_mark (block_bit_mark bm x) xs) b
             = foldl block_bit_mark (block_bit_clear (block_bit_mark bm x) b) xs"
    by simp
  also have "block_bit_clear (block_bit_mark bm x) b = block_bit_mark (block_bit_clear bm b) x"
    using Cons.prems by (simp add: block_bit_clear_mark_swap)
  finally show ?case by simp
qed

lemma length_foldl_mark [simp]: "length (foldl block_bit_mark bm ids) = length bm"
  by (induction ids arbitrary: bm) simp_all

lemma block_bit_set_foldl_mark:
  "\<forall>b \<in> set ids. unat (b div 32) < length bm \<Longrightarrow>
   block_bit_set (foldl block_bit_mark bm ids) b' \<longleftrightarrow> (b' \<in> set ids \<or> block_bit_set bm b')"
proof (induction ids arbitrary: bm)
  case Nil
  then show ?case by simp
next
  case (Cons x xs)
  have "block_bit_set (foldl block_bit_mark (block_bit_mark bm x) xs) b'
        \<longleftrightarrow> (b' \<in> set xs \<or> block_bit_set (block_bit_mark bm x) b')"
    using Cons.prems by (intro Cons.IH) simp
  then show ?case
    using Cons.prems by (auto simp: block_bit_set_mark)
qed

lemma wf_in_range:
  "block_allocator_wf a \<Longrightarrow> b < total_blocks a \<Longrightarrow> unat (b div 32) < length (bitmap a)"
proof -
  assume wf: "block_allocator_wf a" and lt: "b < total_blocks a"
  have "unat b < unat (total_blocks a)"
    using lt by (simp add: word_less_nat_alt)
  then have "unat b < 32 * length (bitmap a)"
    using wf by (simp add: block_allocator_wf_def)
  moreover have "unat (b div 32) = unat b div 32"
    by (simp add: unat_div)
  ultimately show ?thesis
    by (simp add: less_mult_imp_div_less mult.commute)
qed

lemma allocate_block_scan_result:
  "allocate_block_scan a i = (b, a') \<Longrightarrow>
     (b = INVALID_BLOCK_ID \<and> a' = a) \<or>
     (b < total_blocks a \<and> \<not> block_bit_set (bitmap a) b \<and>
      a' = a\<lparr> bitmap := block_bit_mark (bitmap a) b,
              allocated_blocks := allocated_blocks a + 1,
              next_search_hint := (b + 1) mod total_blocks a \<rparr>)"
proof (induction a i rule: allocate_block_scan.induct)
  case (1 a i)
  show ?case
  proof (cases "i < total_blocks a")
    case True
    then have pos: "0 < total_blocks a"
      by (metis word_gt_0 word_not_simps(1))
    let ?b = "(next_search_hint a + i) mod total_blocks a"
    have lt: "?b < total_blocks a"
      using pos by (simp add: word_mod_less_divisor)
    show ?thesis
    proof (cases "block_bit_set (bitmap a) ?b")
      case set: True
      have "allocate_block_scan a (i + 1) = (b, a')"
        using "1.prems" True set by (subst (asm) allocate_block_scan.simps) simp
      then show ?thesis
        using "1.IH" [OF True refl] set by simp
    next
      case False
      then show ?thesis
        using "1.prems" True lt by (subst (asm) allocate_block_scan.simps) (auto simp: Let_def)
    qed
  next
    case False
    then show ?thesis
      using "1.prems" by (subst (asm) allocate_block_scan.simps) simp
  qed
qed

lemma allocate_block_result:
  "allocate_block a = (b, a') \<Longrightarrow>
     (b = INVALID_BLOCK_ID \<and> a' = a) \<or>
     (b \<noteq> INVALID_BLOCK_ID \<and> b < total_blocks a \<and> \<not> block_bit_set (bitmap a) b \<and>
      bitmap a' = block_bit_mark (bitmap a) b \<and>
      allocated_blocks a' = allocated_blocks a + 1 \<and>
      total_blocks a' = total_blocks a)"
  using allocate_block_scan_result [of a 0 b a'] less_total_not_invalid [of b "total_blocks a"]
  by (auto simp: allocate_block_def split: if_splits)

lemma rollback_restores:
  assumes "distinct ids"
    and "\<forall>b \<in> set ids. b < total_blocks a \<and> unat (b div 32) < length bm0 \<and> \<not> block_bit_set bm0 b"
    and "bitmap a = foldl block_bit_mark bm0 ids"
  shows "bitmap (foldl free_block a ids) = bm0
         \<and> allocated_blocks (foldl free_block a ids) = allocated_blocks a - of_nat (length ids)
         \<and> total_blocks (foldl free_block a ids) = total_blocks a"
  using assms
proof (induction ids arbitrary: a)
  case Nil
  then show ?case by simp
next
  case (Cons x xs)
  let ?a1 = "a\<lparr> bitmap := block_bit_clear (bitmap a) x, allocated_blocks := allocated_blocks a - 1 \<rparr>"
  have x: "x < total_blocks a" "unat (x div 32) < length bm0" "\<not> block_bit_set bm0 x" "x \<notin> set xs"
    using Cons.prems by auto
  have rng: "\<forall>b \<in> set xs. unat (b div 32) < length (block_bit_mark bm0 x)"
    using Cons.prems by simp
  have "block_bit_set (bitmap a) x"
    using Cons.prems(3) block_bit_set_foldl_mark [OF rng, of x] x(2)
    by (simp add: block_bit_set_mark)
  then have fb: "free_block a x = ?a1"
    using x(1) by (simp add: free_block_def)
  have "bitmap ?a1 = block_bit_clear (foldl block_bit_mark (block_bit_mark bm0 x) xs) x"
    using Cons.prems(3) by simp
  also have "\<dots> = foldl block_bit_mark (block_bit_clear (block_bit_mark bm0 x) x) xs"
    using x(4) by (rule block_bit_clear_foldl_mark)
  also have "\<dots> = foldl block_bit_mark bm0 xs"
    using x(2,3) by (simp add: block_bit_clear_mark)
  finally have bm: "bitmap ?a1 = foldl block_bit_mark bm0 xs" .
  have "bitmap (foldl free_block ?a1 xs) = bm0
         \<and> allocated_blocks (foldl free_block ?a1 xs) = allocated_blocks ?a1 - of_nat (length xs)
         \<and> total_blocks (foldl free_block ?a1 xs) = total_blocks ?a1"
    using Cons.prems bm by (intro Cons.IH) auto
  then show ?case
    using fb by simp
qed

lemma allocate_multiple_loop_result:
  assumes wf: "block_allocator_wf a0"
    and inv: "total_blocks a = total_blocks a0"
      "bitmap a = foldl block_bit_mark (bitmap a0) ids"
      "allocated_blocks a = allocated_blocks a0 + of_nat (length ids)"
      "distinct ids"
      "\<forall>b \<in> set ids. b < total_blocks a0 \<and> \<not> block_bit_set (bitmap a0) b"
    and run: "allocate_multiple_loop a n ids = (rc, a', ids')"
  shows "(rc = 0 \<and> length ids' = length ids + n \<and> distinct ids'
          \<and> (\<forall>b \<in> set ids'. b < total_blocks a0 \<and> \<not> block_bit_set (bitmap a0) b)
          \<and> bitmap a' = foldl block_bit_mark (bitmap a0) ids'
          \<and> allocated_blocks a' = allocated_blocks a0 + of_nat (length ids'))
         \<or> (rc = - 1 \<and> bitmap a' = bitmap a0 \<and> allocated_blocks a' = allocated_blocks a0)"
  using inv run
proof (induction n arbitrary: a ids)
  case 0
  then show ?case by simp
next
  case (Suc n)
  obtain b a1 where ab: "allocate_block a = (b, a1)"
    by (cases "allocate_block a")
  have rng: "\<forall>x \<in> set ids. unat (x div 32) < length (bitmap a0)"
    using Suc.prems(5) wf by (simp add: wf_in_range)
  show ?case
  proof (cases "b = INVALID_BLOCK_ID")
    case True
    then have a1: "a1 = a"
      using allocate_block_result [OF ab] by auto
    have res: "rc = - 1" "a' = foldl free_block a ids"
      using Suc.prems(6) ab True a1 by auto
    have "bitmap (foldl free_block a ids) = bitmap a0
           \<and> allocated_blocks (foldl free_block a ids) = allocated_blocks a - of_nat (length ids)
           \<and> total_blocks (foldl free_block a ids) = total_blocks a"
      using Suc.prems(1,2,4,5) rng by (intro rollback_restores) auto
    then show ?thesis
      using res Suc.prems(3) by simp
  next
    case False
    then have b: "b < total_blocks a" "\<not> block_bit_set (bitmap a) b"
      "bitmap a1 = block_bit_mark (bitmap a) b"
      "allocated_blocks a1 = allocated_blocks a + 1" "total_blocks a1 = total_blocks a"
      using allocate_block_result [OF ab] by auto
    have nset: "b \<notin> set ids \<and> \<not> block_bit_set (bitmap a0) b"
      using b(2) Suc.prems(2) block_bit_set_foldl_mark [OF rng, of b] by simp
    have run': "allocate_multiple_loop a1 n (ids @ [b]) = (rc, a', ids')"
      using Suc.prems(6) ab False by simp
    have "(rc = 0 \<and> length ids' = length (ids @ [b]) + n \<and> distinct ids'
          \<and> (\<forall>b \<in> set ids'. b < total_blocks a0 \<and> \<not> block_bit_set (bitmap a0) b)
          \<and> bitmap a' = foldl block_bit_mark (bitmap a0) ids'
          \<and> allocated_blocks a' = allocated_blocks a0 + of_nat (length ids'))
         \<or> (rc = - 1 \<and> bitmap a' = bitmap a0 \<and> allocated_blocks a' = allocated_blocks a0)"
    proof (rule Suc.IH [OF _ _ _ _ _ run'])
      show "total_blocks a1 = total_blocks a0"
        using b(5) Suc.prems(1) by simp
      show "bitmap a1 = foldl block_bit_mark (bitmap a0) (ids @ [b])"
        using b(3) Suc.prems(2) by simp
      show "allocated_blocks a1 = allocated_blocks a0 + of_nat (length (ids @ [b]))"
        using b(4) Suc.prems(3) by simp
      show "distinct (ids @ [b])"
        using Suc.prems(4) nset by simp
      show "\<forall>x \<in> set (ids @ [b]). x < total_blocks a0 \<and> \<not> block_bit_set (bitmap a0) x"
        using Suc.prems(1,5) b(1) nset by auto
    qed
    then show ?thesis by simp
  qed
qed

text \<open>
  Claim C9: on an allocator whose bitmap covers its blocks, \<open>allocate_multiple_blocks\<close>
  either returns 0 with \<open>n\<close> distinct blocks that were free before, whose bits are the only
  bits that changed (they are set now) and with \<open>allocated_blocks\<close> increased by \<open>n\<close>, or
  it returns \<open>-1\<close> with the bitmap and \<open>allocated_blocks\<close> as they were before the call.
  Freeing a block whose bit is not set changes nothing.
\<close>

theorem allocate_multiple_blocks_all_or_nothing:
  assumes wf: "block_allocator_wf a"
    and run: "allocate_multiple_blocks a n = (rc, a', ids)"
  shows "((rc = 0 \<and> length ids = unat n \<and> distinct ids
           \<and> (\<forall>b \<in> set ids. b < total_blocks a \<and> \<not> block_bit_set (bitmap a) b)
           \<and> (\<forall>b. block_bit_set (bitmap a') b \<longleftrightarrow> (b \<in> set ids \<or> block_bit_set (bitmap a) b))
           \<and> allocated_blocks a' = allocated_blocks a + n)
          \<or> (rc = - 1 \<and> bitmap a' = bitmap a \<and> allocated_blocks a' = allocated_blocks a))
         \<and> (\<forall>b. \<not> block_bit_set (bitmap a) b \<longrightarrow> free_block a b = a)"
proof
  show "\<forall>b. \<not> block_bit_set (bitmap a) b \<longrightarrow> free_block a b = a"
    by (simp add: free_block_def)
next
  show "(rc = 0 \<and> length ids = unat n \<and> distinct ids
           \<and> (\<forall>b \<in> set ids. b < total_blocks a \<and> \<not> block_bit_set (bitmap a) b)
           \<and> (\<forall>b. block_bit_set (bitmap a') b \<longleftrightarrow> (b \<in> set ids \<or> block_bit_set (bitmap a) b))
           \<and> allocated_blocks a' = allocated_blocks a + n)
          \<or> (rc = - 1 \<and> bitmap a' = bitmap a \<and> allocated_blocks a' = allocated_blocks a)"
  proof (cases "n = 0 \<or> allocated_blocks a + n > total_blocks a")
    case True
    then have "rc = - 1 \<and> a' = a"
      using run by (auto simp: allocate_multiple_blocks_def split: if_splits)
    then show ?thesis by simp
  next
    case False
    then have loop: "allocate_multiple_loop a (unat n) [] = (rc, a', ids)"
      using run by (simp add: allocate_multiple_blocks_def)
    have res: "(rc = 0 \<and> length ids = length ([] :: u32 list) + unat n \<and> distinct ids
          \<and> (\<forall>b \<in> set ids. b < total_blocks a \<and> \<not> block_bit_set (bitmap a) b)
          \<and> bitmap a' = foldl block_bit_mark (bitmap a) ids
          \<and> allocated_blocks a' = allocated_blocks a + of_nat (length ids))
         \<or> (rc = - 1 \<and> bitmap a' = bitmap a \<and> allocated_blocks a' = allocated_blocks a)"
      by (rule allocate_multiple_loop_result [OF wf _ _ _ _ _ loop]) simp_all
    show ?thesis
    proof (cases "rc = 0")
      case True
      then have ok: "length ids = unat n" "distinct ids"
        "\<forall>b \<in> set ids. b < total_blocks a \<and> \<not> block_bit_set (bitmap a) b"
        "bitmap a' = foldl block_bit_mark (bitmap a) ids"
        "allocated_blocks a' = allocated_blocks a + of_nat (length ids)"
        using res by auto
      have rng: "\<forall>b \<in> set ids. unat (b div 32) < length (bitmap a)"
        using ok(3) wf by (simp add: wf_in_range)
      have "\<forall>b. block_bit_set (bitmap a') b \<longleftrightarrow> (b \<in> set ids \<or> block_bit_set (bitmap a) b)"
        using ok(4) block_bit_set_foldl_mark [OF rng] by simp
      then show ?thesis
        using True ok by simp
    next
      case False
      then show ?thesis using res by auto
    qed
  qed
qed

lemma allocate_three_fresh:
  "allocate_multiple_blocks (block_allocator_init 262144) 3 =
     (0, \<lparr> bitmap = (replicate 8192 0)[0 := 7], total_blocks = 262144,
           allocated_blocks = 3, next_search_hint = 3 \<rparr>, [0, 1, 2])"
proof -
  have u: "unat (3 :: u32) = Suc (Suc (Suc 0))"
    by simp
  have le1: "\<not> (262144 :: u32) \<le> 1"
    by (simp add: word_le_nat_alt)
  show ?thesis
    unfolding allocate_multiple_blocks_def u
    by (simp add: block_allocator_init_def allocate_block_def allocate_block_scan.simps
        block_bit_set_def block_bit_mark_def INVALID_BLOCK_ID_def le1)
qed

lemma block_allocator_init_wf: "block_allocator_wf (block_allocator_init 262144)"
  by (simp add: block_allocator_wf_def block_allocator_init_def)

text \<open>
  Claim C9 at the allocator of a new disk manager: three blocks are requested and blocks
  0, 1 and 2 are allocated; freeing block 2 before the call changes nothing.
\<close>

theorem allocate_multiple_blocks_all_or_nothing_witness:
  "block_allocator_wf (block_allocator_init 262144)
   \<and> allocate_multiple_blocks (block_allocator_init 262144) 3 =
       (0, \<lparr> bitmap = (replicate 8192 0)[0 := 7], total_blocks = 262144,
             allocated_blocks = 3, next_search_hint = 3 \<rparr>, [0, 1, 2])
   \<and> block_bit_set ((replicate 8192 0)[0 := 7]) 2
   \<and> \<not> block_bit_set (bitmap (block_allocator_init 262144)) 2
   \<and> free_block (block_allocator_init 262144) 2 = block_allocator_init 262144"
  using allocate_multiple_blocks_all_or_nothing [OF block_allocator_init_wf allocate_three_fresh]
    block_allocator_init_wf allocate_three_fresh
  by simp

section \<open>Large objects in the index\<close>

lemmas lo_eval = lo_put_all.simps bplus_tree_lo_put_def
  lo_node_put.simps lo_leaf_insert_def lo_non_leaf_insert_def lo_child_slot_def
  key_binary_search_def bsearch_loop.simps Let_def BPLUS_MAX_ENTRIES_def bplus_tree_lo_init_def
  lo_node_get.simps bplus_tree_lo_get_def

lemmas hash_eval = hashed_key_def zipcache_hash_key_def char_to_u32_def

lemma lo_trace_ptr_valid: "object_pointer_is_valid (lo_trace_ptr n)"
  by (simp add: object_pointer_is_valid_def lo_trace_ptr_def)

lemma lo_trace_hashes:
  "map hashed_key lo_trace_keys =
    [1690154619, 1673377000, 1723709857, 1706932238, 1757265095, 1740487476,
     1790820333, 1774042714, 1555933667, 1539156048, - 610029560, - 593251941,
     - 576474322, - 559696703, - 542919084, - 526141465, - 509363846, - 492586227,
     - 744250512, - 727472893, 1303060291, 1286282672, 1336615529, 1319837910,
     1370170767, 1353393148, 1403726005, 1386948386, 1437281243, 1420503624,
     1739131290, 1755908909, 1705576052, 1722353671, 1672020814, 1688798433,
     1638465576, 1655243195, 1604910338, 1621687957, - 642746155, - 659523774,
     - 676301393, - 693079012, - 709856631, - 726634250, - 743411869, - 760189488,
     - 508525203, - 525302822, 1403873100, 1420650719, 1437428338, 1454205957,
     1336762624, 1353540243, 1370317862, 1387095481, 1538094052, 1554871671,
     - 441120537, - 457898156, - 407565299, - 424342918, - 508231013, - 525008632,
     - 474675775, - 491453394, - 575341489, - 592119108, - 541933346, - 525155727,
     - 575488584, - 558710965, - 474822870, - 458045251, - 508378108, - 491600489,
     - 676154298, - 659376679, - 778938583, - 795716202, - 812493821, - 829271440,
     - 711828107, - 728605726, - 745383345, - 762160964, - 644717631, - 661495250,
     - 879751392, - 862973773, - 846196154, - 829418535, - 812640916, - 795863297,
     - 779085678, - 762308059]"
  by (simp add: lo_trace_keys_def hash_eval)

lemma lo_trace_all:
  "(case lo_put_all (the (bplus_tree_lo_init 16)) 0 (map hashed_key lo_trace_keys) of
      None \<Rightarrow> False
    | Some t \<Rightarrow> bplus_tree_lo_get t (- 762308059) = INVALID_OBJECT_POINTER)"
  by (simp add: lo_trace_hashes lo_trace_ptr_valid lo_eval split del: if_split)

lemma length_lo_trace_value: "length lo_trace_value = 4096"
  by (simp add: lo_trace_value_def)

lemma zipcache_put_large_index:
  assumes "tiny_threshold c = 128" and "medium_threshold c = 2048"
    and "strlen key \<le> 256"
    and "bplus_tree_lo_put (bt_lo c) (hashed_key key) (lo_trace_ptr (ssd_offset c)) = Some (0, lo')"
  shows "\<exists>c'. zipcache_put c key 4096 lo_trace_value = Some (ZIPCACHE_OK, c')
              \<and> bt_lo c' = lo' \<and> tiny_threshold c' = 128 \<and> medium_threshold c' = 2048
              \<and> ssd_offset c' = ssd_offset c + 4096"
  using assms
  by (simp add: zipcache_put_def zipcache_classify_object_def zipcache_route_put_def
      zipcache_write_large_object_def lo_trace_ptr_def length_lo_trace_value Let_def
      ZIPCACHE_LARGE_THRESHOLD_def ZIPCACHE_MAX_KEY_SIZE_def)

lemma apply_ops_large_index:
  assumes "tiny_threshold c = 128" and "medium_threshold c = 2048"
    and "list_all (\<lambda>key. strlen key \<le> 256) keys"
    and "lo_put_all (bt_lo c) (ssd_offset c) (map hashed_key keys) = Some lo'"
  shows "\<exists>c'. apply_ops c (map (\<lambda>key. OpPut key 4096 lo_trace_value) keys) = Some c'
              \<and> bt_lo c' = lo' \<and> tiny_threshold c' = 128 \<and> medium_threshold c' = 2048
              \<and> ssd_offset c' = ssd_offset c + 4096 * length keys"
  using assms
proof (induction keys arbitrary: c)
  case Nil
  then show ?case by simp
next
  case (Cons key keys)
  from Cons.prems(4) obtain lo1 where
    put1: "bplus_tree_lo_put (bt_lo c) (hashed_key key) (lo_trace_ptr (ssd_offset c)) = Some (0, lo1)"
    and rest: "lo_put_all lo1 (ssd_offset c + 4096) (map hashed_key keys) = Some lo'"
    by (auto split: option.splits if_splits)
  from Cons.prems have len: "strlen key \<le> 256" and lens: "list_all (\<lambda>key. strlen key \<le> 256) keys"
    by simp_all
  from zipcache_put_large_index [OF Cons.prems(1) Cons.prems(2) len put1] obtain c1 where
    c1: "zipcache_put c key 4096 lo_trace_value = Some (ZIPCACHE_OK, c1)"
      "bt_lo c1 = lo1" "tiny_threshold c1 = 128" "medium_threshold c1 = 2048"
      "ssd_offset c1 = ssd_offset c + 4096"
    by blast
  from rest c1 have "lo_put_all (bt_lo c1) (ssd_offset c1) (map hashed_key keys) = Some lo'"
    by simp
  from Cons.IH [OF c1(3) c1(4) lens this] obtain c' where
    "apply_ops c1 (map (\<lambda>key. OpPut key 4096 lo_trace_value) keys) = Some c'"
    "bt_lo c' = lo'" "tiny_threshold c' = 128" "medium_threshold c' = 2048"
    "ssd_offset c' = ssd_offset c1 + 4096 * length keys"
    by blast
  then show ?case
    using c1 by simp
qed

lemma lo_put_all_snoc:
  "lo_put_all t n (ks @ [k]) =
     (case lo_put_all t n ks of
        None \<Rightarrow> None
      | Some t' \<Rightarrow> lo_put_all t' (n + 4096 * length ks) [k])"
proof (induction ks arbitrary: t n)
  case Nil
  then show ?case by simp
next
  case (Cons a ks)
  show ?case
    by (simp add: Cons.IH split: option.splits) (simp add: add.assoc add.commute)
qed

lemma fresh_cache_fields:
  "tiny_threshold fresh_cache = 128" "medium_threshold fresh_cache = 2048"
  "ssd_offset fresh_cache = 0" "bt_lo fresh_cache = the (bplus_tree_lo_init 16)"
  by (simp_all add: fresh_cache_def zipcache_init_def)

lemma lo_trace_keys_short: "list_all (\<lambda>key. strlen key \<le> 256) lo_trace_keys"
  by (simp add: lo_trace_keys_def)

lemma lo_trace_keys_split: "lo_trace_keys = take 97 lo_trace_keys @ [''key_97'']"
  by (simp add: lo_trace_keys_def)

lemma hashed_key_97: "hashed_key ''key_97'' = - 762308059"
  by (simp add: hash_eval)

lemma length_take_97: "length (take 97 lo_trace_keys) = 97"
  by (simp add: lo_trace_keys_def)

lemma lo_trace_hashes_split:
  "map hashed_key lo_trace_keys = map hashed_key (take 97 lo_trace_keys) @ [- 762308059]"
  by (subst lo_trace_keys_split) (simp only: map_append list.map hashed_key_97)

lemma take_97_short: "list_all (\<lambda>key. strlen key \<le> 256) (take 97 lo_trace_keys)"
  using lo_trace_keys_short unfolding list_all_iff by (meson in_set_takeD)

text \<open>
  Claim C4, at a put the code loses: in the fresh cache, after puts of a 4096-byte value
  under \<open>"key_0"\<close>, ..., \<open>"key_96"\<close>, the put of the value under \<open>"key_97"\<close> is classified
  LARGE and returns \<open>ZIPCACHE_OK\<close>, and afterwards the large-object index has no descriptor
  for the hashed key: \<open>bplus_tree_lo_get\<close> yields the invalid pointer.  The leaf the key
  belongs to is full and is split to the left under an existing parent, and
  \<open>non_leaf_simple_insert\<close> links only the right half.
\<close>

theorem zipcache_put_large_object_not_indexed:
  "zipcache_classify_object (lo_trace_cache 97) (length lo_trace_value) = ZIPCACHE_OBJ_LARGE
   \<and> map_option fst (zipcache_put (lo_trace_cache 97) ''key_97'' 4096 lo_trace_value) = Some ZIPCACHE_OK
   \<and> bplus_tree_lo_get
        (bt_lo (snd (the (zipcache_put (lo_trace_cache 97) ''key_97'' 4096 lo_trace_value))))
        (hashed_key ''key_97'') = INVALID_OBJECT_POINTER"
proof -
  let ?t0 = "the (bplus_tree_lo_init 16)"
  let ?ks = "take 97 lo_trace_keys"
  obtain lo98 where all: "lo_put_all ?t0 0 (map hashed_key lo_trace_keys) = Some lo98"
    and get: "bplus_tree_lo_get lo98 (- 762308059) = INVALID_OBJECT_POINTER"
    using lo_trace_all by (cases "lo_put_all ?t0 0 (map hashed_key lo_trace_keys)") simp_all
  from all have "lo_put_all ?t0 0 (map hashed_key ?ks @ [- 762308059]) = Some lo98"
    unfolding lo_trace_hashes_split .
  then have "(case lo_put_all ?t0 0 (map hashed_key ?ks) of
        None \<Rightarrow> None
      | Some t' \<Rightarrow> lo_put_all t' (0 + 4096 * length (map hashed_key ?ks)) [- 762308059]) = Some lo98"
    unfolding lo_put_all_snoc .
  then obtain lo97 where
    lo97: "lo_put_all ?t0 0 (map hashed_key ?ks) = Some lo97"
    and lo98: "lo_put_all lo97 (0 + 4096 * length (map hashed_key ?ks)) [- 762308059] = Some lo98"
    by (cases "lo_put_all ?t0 0 (map hashed_key ?ks)") (simp_all del: lo_put_all.simps)
  have "0 + 4096 * length (map hashed_key ?ks) = 4096 * 97"
    by (simp only: length_map length_take_97 add_0)
  with lo98 have "lo_put_all lo97 (4096 * 97) [- 762308059] = Some lo98"
    by (simp only:)
  then have put98: "bplus_tree_lo_put lo97 (- 762308059) (lo_trace_ptr (4096 * 97)) = Some (0, lo98)"
    by (auto split: option.splits if_splits)
  from apply_ops_large_index [of fresh_cache ?ks lo97] lo97 take_97_short obtain c97 where
    c97: "apply_ops fresh_cache (map (\<lambda>key. OpPut key 4096 lo_trace_value) ?ks) = Some c97"
    "bt_lo c97 = lo97" "tiny_threshold c97 = 128" "medium_threshold c97 = 2048"
    "ssd_offset c97 = 4096 * 97"
    unfolding fresh_cache_fields length_take_97 by auto
  then have cache: "lo_trace_cache 97 = c97"
    by (simp only: lo_trace_cache_def option.sel)
  have "strlen ''key_97'' \<le> 256"
    by simp
  from zipcache_put_large_index [OF c97(3) c97(4) this, of lo98] put98 c97 obtain c98 where
    "zipcache_put c97 ''key_97'' 4096 lo_trace_value = Some (ZIPCACHE_OK, c98)" "bt_lo c98 = lo98"
    unfolding hashed_key_97 by auto
  then show ?thesis
    using get c97 unfolding cache hashed_key_97
    by (simp add: zipcache_classify_object_def length_lo_trace_value)
qed

section \<open>Binary search on sorted keys\<close>




section \<open>Splitting a super-leaf\<close>




















lemma redistribute_place_keeps_length:
  "length (cached_sub_pages (redistribute_place t kv)) = length (cached_sub_pages t)"
  by (simp add: redistribute_place_def Let_def split: prod.splits)





























section \<open>A put into a full super-leaf\<close>













end
